theory Spec2Isabelle
  imports Complex_Main
begin

section \<open>Data model (src/game/models.py)\<close>

text \<open>
  JSON values, as stored in the \<^verbatim>\<open>JSONField\<close> columns (inventory, interaction history)
  and as they arrive in a request body. Such a column holds whatever JSON value was
  written to it: the model declares a default (\<^verbatim>\<open>list\<close> or \<^verbatim>\<open>dict\<close>), not a shape.
  A string is the list of its characters, a character being a code point below 256.
\<close>

datatype json =
    JNull
  | JBool bool
  | JInt int
  | JFloat real
  | JStr string
  | JList "json list"
  | JDict "(string \<times> json) list"

text \<open>\<^verbatim>\<open>Game.STATUS_CHOICES\<close> and \<^verbatim>\<open>Character.CHARACTER_STATUS_CHOICES\<close>.\<close>

datatype game_status = Waiting | Active | Paused | Finished

datatype character_status = Idle | Moving | Looting | Interacting | In_combat | Dead

text \<open>
  Rows of the relational store. Every record carries the primary key \<^verbatim>\<open>id\<close> and the foreign
  keys as integers. A timestamp is the text of \<^verbatim>\<open>now()\<close>, handed in by the caller; the
  \<^verbatim>\<open>created_at\<close> and \<^verbatim>\<open>updated_at\<close> columns are not modelled. Field names shared by several
  models carry the model's initial. Integer columns hold Python integers; the range that
  the database column adds is not modelled.
\<close>

type_synonym timestamp = string

record game =
  g_id :: int
  g_status :: game_status
  max_players :: int
  current_tick :: int

record player =
  p_id :: int
  p_game :: int
  p_user :: int
  player_name :: string
  color :: string
  avatar :: string
  p_is_active :: bool

record hex_tile =
  t_id :: int
  t_game :: int
  q :: int
  r :: int
  terrain_type :: string
  elevation :: int
  is_passable :: bool

record character =
  c_id :: int
  c_game :: int
  c_owner :: int
  character_type :: string
  c_name :: string
  is_hero :: bool
  health :: int
  max_health :: int
  stamina :: int
  max_stamina :: int
  experience :: int
  level :: int
  c_position_q :: int
  c_position_r :: int
  c_status :: character_status
  movement_path :: json
  movement_points :: int
  max_movement_points :: int
  inventory :: json
  inventory_capacity :: int
  current_orders :: json
  in_combat :: bool
  combat_id :: string
  attributes :: json
  skills :: json
  died_at :: "timestamp option"

record map_item =
  m_id :: int
  m_game :: int
  item_type :: string
  item_id :: string
  m_position_q :: int
  m_position_r :: int
  quantity :: int
  is_available :: bool
  collected_at :: "timestamp option"
  collected_by :: "int option"

record interactable =
  i_id :: int
  i_game :: int
  interactable_type :: string
  interactable_id :: string
  i_name :: string
  i_position_q :: int
  i_position_r :: int
  i_state :: string
  i_is_active :: bool
  required_level :: int
  max_uses :: int
  current_uses :: int
  cooldown_ticks :: int
  last_used_tick :: "int option"
  interactions :: json

text \<open>The store: one list of rows per table, in primary-key order.\<close>

record db =
  games :: "game list"
  players :: "player list"
  hex_tiles :: "hex_tile list"
  characters :: "character list"
  map_items :: "map_item list"
  interactables :: "interactable list"

text \<open>
  The error responses: HTTP 400 with its message; HTTP 404, either raised by the object
  lookup (\<^verbatim>\<open>Http404\<close>) or returned by a view with a message; and an uncaught exception
  (HTTP 500).
\<close>

datatype error = BadRequest string | Http404 | NotFound string | ServerError

section \<open>Python values\<close>

text \<open>Truth value of a request value, as tested by \<^verbatim>\<open>if not x\<close>; \<^verbatim>\<open>JNull\<close> is \<^verbatim>\<open>None\<close>.\<close>

fun truthy :: "json \<Rightarrow> bool" where
  "truthy JNull = False"
| "truthy (JBool b) = b"
| "truthy (JInt n) = (n \<noteq> 0)"
| "truthy (JFloat x) = (x \<noteq> 0)"
| "truthy (JStr s) = (s \<noteq> [])"
| "truthy (JList xs) = (xs \<noteq> [])"
| "truthy (JDict kvs) = (kvs \<noteq> [])"

text \<open>
  \<^verbatim>\<open>str.strip()\<close>: the characters below 256 that Python counts as whitespace are removed
  from both ends.
\<close>

definition is_space :: "char \<Rightarrow> bool" where
  "is_space c = (of_char c \<in> {9, 10, 11, 12, 13, 28, 29, 30, 31, 32, 133, 160 :: nat})"

definition py_strip :: "string \<Rightarrow> string" where
  "py_strip s = rev (dropWhile is_space (rev (dropWhile is_space s)))"

text \<open>
  The check that a model serializer derives from a \<^verbatim>\<open>CharField(max_length=n)\<close> column,
  with \<^verbatim>\<open>blank=True\<close> or not: the value is trimmed; a blank value is refused unless
  blank is allowed; the trimmed value has at most \<open>n\<close> characters and no null character.
  The result is the trimmed value, which is what a \<^verbatim>\<open>validate_<field>\<close> method receives.
\<close>

definition char_field :: "nat \<Rightarrow> bool \<Rightarrow> string \<Rightarrow> error + string" where
  "char_field max_length allow_blank v =
     (let s = py_strip v
      in if s = [] then (if allow_blank then Inr []
                         else Inl (BadRequest ''This field may not be blank.''))
         else if length s > max_length
         then Inl (BadRequest ''Ensure this field has no more than max_length characters.'')
         else if char_of (0 :: nat) \<in> set s
         then Inl (BadRequest ''Null characters are not allowed.'')
         else Inr s)"

text \<open>
  The conversion \<^verbatim>\<open>int(value)\<close> that an integer column applies to a lookup value. For a
  string: surrounding whitespace is dropped, then come an optional sign and decimal
  digits, with single underscores allowed between digits. \<^verbatim>\<open>None\<close> is the
  \<^verbatim>\<open>ValueError\<close> or \<^verbatim>\<open>TypeError\<close>. The limit that recent Python versions put on the
  number of digits is not modelled.
\<close>

definition digit_of :: "char \<Rightarrow> nat option" where
  "digit_of c = (let n = (of_char c :: nat) in if 48 \<le> n \<and> n \<le> 57 then Some (n - 48) else None)"

fun parse_digits :: "string \<Rightarrow> nat \<Rightarrow> bool \<Rightarrow> nat option" where
  "parse_digits [] acc after_digit = (if after_digit then Some acc else None)"
| "parse_digits (c # cs) acc after_digit =
     (case digit_of c of
        Some v \<Rightarrow> parse_digits cs (10 * acc + v) True
      | None \<Rightarrow> if c = CHR ''_'' \<and> after_digit then parse_digits cs acc False else None)"

definition py_int :: "string \<Rightarrow> int option" where
  "py_int s =
     (case py_strip s of
        [] \<Rightarrow> None
      | c # cs \<Rightarrow>
          if c = CHR ''-'' then map_option (\<lambda>n. - int n) (parse_digits cs 0 False)
          else if c = CHR ''+'' then map_option int (parse_digits cs 0 False)
          else map_option int (parse_digits (c # cs) 0 False))"

fun orm_int :: "json \<Rightarrow> int option" where
  "orm_int (JInt n) = Some n"
| "orm_int (JBool b) = Some (if b then 1 else 0)"
| "orm_int (JFloat x) = Some (if 0 \<le> x then \<lfloor>x\<rfloor> else \<lceil>x\<rceil>)"
| "orm_int (JStr s) = py_int s"
| "orm_int _ = None"

section \<open>Character view set (src/game/views.py)\<close>

text \<open>
  The query parameters \<^verbatim>\<open>game\<close>, \<^verbatim>\<open>owner\<close>, \<^verbatim>\<open>q\<close>, \<^verbatim>\<open>r\<close> read by
  \<^verbatim>\<open>get_queryset\<close>, already converted to integers; \<^verbatim>\<open>None\<close> is an absent (or, for
  \<^verbatim>\<open>game\<close> and \<^verbatim>\<open>owner\<close>, empty) parameter.
\<close>

record query_params =
  qp_game :: "int option"
  qp_owner :: "int option"
  qp_q :: "int option"
  qp_r :: "int option"

definition no_params :: query_params where
  "no_params = \<lparr>qp_game = None, qp_owner = None, qp_q = None, qp_r = None\<rparr>"

text \<open>\<^verbatim>\<open>CharacterViewSet.get_queryset\<close>: dead characters are excluded first.\<close>

definition character_queryset :: "query_params \<Rightarrow> db \<Rightarrow> character list" where
  "character_queryset qp d =
     (let qs0 = filter (\<lambda>c. c_status c \<noteq> Dead) (characters d);
          qs1 = (case qp_game qp of None \<Rightarrow> qs0
                 | Some g \<Rightarrow> filter (\<lambda>c. c_game c = g) qs0);
          qs2 = (case qp_owner qp of None \<Rightarrow> qs1
                 | Some ow \<Rightarrow> filter (\<lambda>c. c_owner c = ow) qs1)
      in (case (qp_q qp, qp_r qp) of
            (Some fq, Some fr) \<Rightarrow>
               filter (\<lambda>c. c_position_q c = fq \<and> c_position_r c = fr) qs2
          | _ \<Rightarrow> qs2))"

text \<open>\<^verbatim>\<open>self.get_object()\<close>: the row of the queryset with the given key, or HTTP 404.\<close>

definition get_object :: "query_params \<Rightarrow> int \<Rightarrow> db \<Rightarrow> error + character" where
  "get_object qp pk d =
     (case find (\<lambda>c. c_id c = pk) (character_queryset qp d) of
        None \<Rightarrow> Inl Http404
      | Some c \<Rightarrow> Inr c)"

text \<open>\<^verbatim>\<open>character.save()\<close>: the row with the same primary key is overwritten.\<close>

definition save_character :: "character \<Rightarrow> db \<Rightarrow> db" where
  "save_character c d =
     d\<lparr>characters := map (\<lambda>x. if c_id x = c_id c then c else x) (characters d)\<rparr>"

text \<open>
  \<^verbatim>\<open>CharacterViewSet.move\<close>. The body fields \<^verbatim>\<open>q\<close> and \<^verbatim>\<open>r\<close> are integers or absent.
  The result is the response together with the store after the request.
\<close>

definition move ::
  "query_params \<Rightarrow> int \<Rightarrow> int option \<Rightarrow> int option \<Rightarrow> db \<Rightarrow> (error + character) \<times> db" where
  "move qp pk rq rr d =
     (case get_object qp pk d of
        Inl e \<Rightarrow> (Inl e, d)
      | Inr character \<Rightarrow>
          (case (rq, rr) of
             (Some nq, Some nr) \<Rightarrow>
               (case find (\<lambda>t. t_game t = c_game character \<and> q t = nq \<and> r t = nr)
                          (hex_tiles d) of
                  None \<Rightarrow> (Inl (BadRequest ''Invalid tile coordinates''), d)
                | Some tile \<Rightarrow>
                    if \<not> is_passable tile
                    then (Inl (BadRequest ''Tile is not passable''), d)
                    else
                      (let character' = character\<lparr>c_position_q := nq, c_position_r := nr,
                                                   c_status := Idle\<rparr>
                       in (Inr character', save_character character' d)))
           | _ \<Rightarrow> (Inl (BadRequest ''q and r coordinates are required''), d)))"

text \<open>\<^verbatim>\<open>map_item.save()\<close>.\<close>

definition save_map_item :: "map_item \<Rightarrow> db \<Rightarrow> db" where
  "save_map_item m d =
     d\<lparr>map_items := map (\<lambda>x. if m_id x = m_id m then m else x) (map_items d)\<rparr>"

text \<open>The inventory entry appended by \<^verbatim>\<open>loot\<close>.\<close>

definition loot_entry :: "map_item \<Rightarrow> timestamp \<Rightarrow> json" where
  "loot_entry m t =
     JDict [(''item_id'', JStr (item_id m)),
            (''item_type'', JStr (item_type m)),
            (''quantity'', JInt (quantity m)),
            (''looted_at'', JStr t)]"

text \<open>
  \<^verbatim>\<open>CharacterViewSet.loot\<close>. \<open>rid\<close> is \<^verbatim>\<open>request.data.get('item_id')\<close>; \<open>t1\<close> and \<open>t2\<close>
  are the two readings of \<^verbatim>\<open>now()\<close>. \<^verbatim>\<open>character.inventory.append\<close> needs the stored
  inventory to be a list: on any other value it raises, before anything is saved.
\<close>

definition loot ::
  "query_params \<Rightarrow> int \<Rightarrow> json \<Rightarrow> timestamp \<Rightarrow> timestamp \<Rightarrow> db \<Rightarrow> (error + character) \<times> db" where
  "loot qp pk rid t1 t2 d =
     (case get_object qp pk d of
        Inl e \<Rightarrow> (Inl e, d)
      | Inr character \<Rightarrow>
          if \<not> truthy rid then (Inl (BadRequest ''item_id is required''), d)
          else
            (case orm_int rid of
               None \<Rightarrow> (Inl ServerError, d)
             | Some iid \<Rightarrow>
                 (case find (\<lambda>m. m_id m = iid \<and> m_game m = c_game character \<and>
                                  m_position_q m = c_position_q character \<and>
                                  m_position_r m = c_position_r character \<and>
                                  is_available m) (map_items d) of
                    None \<Rightarrow> (Inl (NotFound ''Item not found at this position''), d)
                  | Some map_item \<Rightarrow>
                      (case inventory character of
                         JList entries \<Rightarrow>
                           (let character' = character\<lparr>inventory :=
                                     JList (entries @ [loot_entry map_item t1])\<rparr>;
                                d1 = save_character character' d;
                                map_item' = map_item\<lparr>is_available := False,
                                                     collected_at := Some t2,
                                                     collected_by := Some (c_id character')\<rparr>
                            in (Inr character', save_map_item map_item' d1))
                       | _ \<Rightarrow> (Inl ServerError, d)))))"

text \<open>
  The body of an update request: the writable fields of \<^verbatim>\<open>CharacterUpdateSerializer\<close>,
  each present or absent, already converted by the field classes.
\<close>

record character_update =
  u_health :: "int option"
  u_stamina :: "int option"
  u_experience :: "int option"
  u_level :: "int option"
  u_position_q :: "int option"
  u_position_r :: "int option"
  u_status :: "character_status option"
  u_movement_path :: "json option"
  u_movement_points :: "int option"
  u_inventory :: "json option"
  u_current_orders :: "json option"
  u_in_combat :: "bool option"
  u_combat_id :: "string option"
  u_attributes :: "json option"
  u_skills :: "json option"

text \<open>\<^verbatim>\<open>validate_health\<close> and \<^verbatim>\<open>validate_stamina\<close>; a model instance is always true.\<close>

definition validate_health :: "character option \<Rightarrow> int \<Rightarrow> error + int" where
  "validate_health instance v =
     (case instance of
        Some i \<Rightarrow> if v > max_health i
                  then Inl (BadRequest ''Health cannot exceed max_health'') else Inr v
      | None \<Rightarrow> Inr v)"

definition validate_stamina :: "character option \<Rightarrow> int \<Rightarrow> error + int" where
  "validate_stamina instance v =
     (case instance of
        Some i \<Rightarrow> if v > max_stamina i
                  then Inl (BadRequest ''Stamina cannot exceed max_stamina'') else Inr v
      | None \<Rightarrow> Inr v)"

text \<open>Assigning the validated fields to the instance: an absent field keeps its value.\<close>

definition apply_update :: "character_update \<Rightarrow> character \<Rightarrow> character" where
  "apply_update u c =
     c\<lparr>health := (case u_health u of None \<Rightarrow> health c | Some v \<Rightarrow> v),
       stamina := (case u_stamina u of None \<Rightarrow> stamina c | Some v \<Rightarrow> v),
       experience := (case u_experience u of None \<Rightarrow> experience c | Some v \<Rightarrow> v),
       level := (case u_level u of None \<Rightarrow> level c | Some v \<Rightarrow> v),
       c_position_q := (case u_position_q u of None \<Rightarrow> c_position_q c | Some v \<Rightarrow> v),
       c_position_r := (case u_position_r u of None \<Rightarrow> c_position_r c | Some v \<Rightarrow> v),
       c_status := (case u_status u of None \<Rightarrow> c_status c | Some v \<Rightarrow> v),
       movement_path := (case u_movement_path u of None \<Rightarrow> movement_path c | Some v \<Rightarrow> v),
       movement_points := (case u_movement_points u of None \<Rightarrow> movement_points c | Some v \<Rightarrow> v),
       inventory := (case u_inventory u of None \<Rightarrow> inventory c | Some v \<Rightarrow> v),
       current_orders := (case u_current_orders u of None \<Rightarrow> current_orders c | Some v \<Rightarrow> v),
       in_combat := (case u_in_combat u of None \<Rightarrow> in_combat c | Some v \<Rightarrow> v),
       combat_id := (case u_combat_id u of None \<Rightarrow> combat_id c | Some v \<Rightarrow> v),
       attributes := (case u_attributes u of None \<Rightarrow> attributes c | Some v \<Rightarrow> v),
       skills := (case u_skills u of None \<Rightarrow> skills c | Some v \<Rightarrow> v)\<rparr>"

text \<open>
  The JSON columns are not nullable, so the serializer refuses the value null for them;
  it accepts every other JSON value.
\<close>

definition null_json_field :: "character_update \<Rightarrow> bool" where
  "null_json_field u =
     (u_movement_path u = Some JNull \<or> u_inventory u = Some JNull \<or>
      u_current_orders u = Some JNull \<or> u_attributes u = Some JNull \<or>
      u_skills u = Some JNull)"

text \<open>
  \<^verbatim>\<open>update\<close> (\<open>partial = False\<close>) and \<^verbatim>\<open>partial_update\<close> of the view set: object lookup,
  then \<^verbatim>\<open>CharacterUpdateSerializer\<close>, then save. Of the serializer's fields only
  \<^verbatim>\<open>position_q\<close> and \<^verbatim>\<open>position_r\<close> have no default in the model, so a full update requires them.
\<close>

definition update_character ::
  "bool \<Rightarrow> query_params \<Rightarrow> int \<Rightarrow> character_update \<Rightarrow> db \<Rightarrow> (error + character) \<times> db" where
  "update_character partial qp pk u d =
     (case get_object qp pk d of
        Inl e \<Rightarrow> (Inl e, d)
      | Inr instance \<Rightarrow>
          if \<not> partial \<and> (u_position_q u = None \<or> u_position_r u = None)
          then (Inl (BadRequest ''This field is required.''), d)
          else if null_json_field u
          then (Inl (BadRequest ''This field may not be null.''), d)
          else
            (case (case u_health u of None \<Rightarrow> Inr 0
                   | Some v \<Rightarrow> validate_health (Some instance) v) of
               Inl e \<Rightarrow> (Inl e, d)
             | Inr _ \<Rightarrow>
                 (case (case u_stamina u of None \<Rightarrow> Inr 0
                        | Some v \<Rightarrow> validate_stamina (Some instance) v) of
                    Inl e \<Rightarrow> (Inl e, d)
                  | Inr _ \<Rightarrow>
                      (let instance' = apply_update u instance
                       in (Inr instance', save_character instance' d)))))"

text \<open>\<^verbatim>\<open>retrieve\<close>: the object lookup alone.\<close>

definition retrieve_character :: "query_params \<Rightarrow> int \<Rightarrow> db \<Rightarrow> (error + character) \<times> db" where
  "retrieve_character qp pk d = (get_object qp pk d, d)"

text \<open>
  \<^verbatim>\<open>destroy\<close>, inherited from \<^verbatim>\<open>ModelViewSet\<close>: the row is deleted, and
  \<^verbatim>\<open>MapItem.collected_by\<close> (\<^verbatim>\<open>on_delete=SET_NULL\<close>) is cleared where it pointed to it.
  The response has no body; the deleted row stands for it.
\<close>

definition destroy_character :: "query_params \<Rightarrow> int \<Rightarrow> db \<Rightarrow> (error + character) \<times> db" where
  "destroy_character qp pk d =
     (case get_object qp pk d of
        Inl e \<Rightarrow> (Inl e, d)
      | Inr instance \<Rightarrow>
          (Inr instance,
           d\<lparr>characters := filter (\<lambda>c. c_id c \<noteq> c_id instance) (characters d),
             map_items := map (\<lambda>m. if collected_by m = Some (c_id instance)
                                    then m\<lparr>collected_by := None\<rparr> else m) (map_items d)\<rparr>))"

section \<open>Interactable view set (src/game/views.py, src/game/serializers.py)\<close>

text \<open>
  The query parameters of \<^verbatim>\<open>InteractableViewSet.get_queryset\<close>; \<open>iq_active\<close> is the value
  of \<^verbatim>\<open>active.lower() == 'true'\<close> when the parameter is present.
\<close>

record interactable_params =
  iq_game :: "int option"
  iq_active :: "bool option"
  iq_q :: "int option"
  iq_r :: "int option"

definition no_iparams :: interactable_params where
  "no_iparams = \<lparr>iq_game = None, iq_active = None, iq_q = None, iq_r = None\<rparr>"

definition interactable_queryset :: "interactable_params \<Rightarrow> db \<Rightarrow> interactable list" where
  "interactable_queryset ip d =
     (let qs0 = interactables d;
          qs1 = (case iq_game ip of None \<Rightarrow> qs0
                 | Some g \<Rightarrow> filter (\<lambda>i. i_game i = g) qs0);
          qs2 = (case iq_active ip of None \<Rightarrow> qs1
                 | Some a \<Rightarrow> filter (\<lambda>i. i_is_active i = a) qs1)
      in (case (iq_q ip, iq_r ip) of
            (Some fq, Some fr) \<Rightarrow>
               filter (\<lambda>i. i_position_q i = fq \<and> i_position_r i = fr) qs2
          | _ \<Rightarrow> qs2))"

definition get_interactable :: "interactable_params \<Rightarrow> int \<Rightarrow> db \<Rightarrow> error + interactable" where
  "get_interactable ip pk d =
     (case find (\<lambda>i. i_id i = pk) (interactable_queryset ip d) of
        None \<Rightarrow> Inl Http404
      | Some i \<Rightarrow> Inr i)"

definition save_interactable :: "interactable \<Rightarrow> db \<Rightarrow> db" where
  "save_interactable i d =
     d\<lparr>interactables := map (\<lambda>x. if i_id x = i_id i then i else x) (interactables d)\<rparr>"

text \<open>The record appended to the interaction history.\<close>

definition interaction_record :: "character \<Rightarrow> int \<Rightarrow> timestamp \<Rightarrow> json" where
  "interaction_record c tick t =
     JDict [(''character_id'', JInt (c_id c)),
            (''character_name'', JStr (c_name c)),
            (''tick'', JInt tick),
            (''timestamp'', JStr t),
            (''result'', JStr ''success'')]"

text \<open>
  \<^verbatim>\<open>InteractableViewSet.interact\<close>. \<open>rcid\<close> is \<^verbatim>\<open>request.data.get('character_id')\<close>. The
  character is looked up among all characters of the interactable's game
  (\<^verbatim>\<open>get_object_or_404(Character, ...)\<close>), not in the character view set's queryset.
  \<^verbatim>\<open>interactable.game\<close> follows the foreign key; a missing row is an uncaught exception.
  So is \<^verbatim>\<open>interactable.interactions.append\<close> when the stored history is not a list; it
  raises before \<^verbatim>\<open>save()\<close>.
\<close>

definition interact ::
  "interactable_params \<Rightarrow> int \<Rightarrow> json \<Rightarrow> timestamp \<Rightarrow> db \<Rightarrow> (error + interactable) \<times> db" where
  "interact ip pk rcid t d =
     (case get_interactable ip pk d of
        Inl e \<Rightarrow> (Inl e, d)
      | Inr interactable \<Rightarrow>
          if \<not> truthy rcid then (Inl (BadRequest ''character_id is required''), d)
          else
            (case orm_int rcid of
               None \<Rightarrow> (Inl ServerError, d)
             | Some cid \<Rightarrow>
                 (case find (\<lambda>c. c_id c = cid \<and> c_game c = i_game interactable)
                            (characters d) of
                    None \<Rightarrow> (Inl Http404, d)
                  | Some character \<Rightarrow>
                      if c_position_q character \<noteq> i_position_q interactable \<or>
                         c_position_r character \<noteq> i_position_r interactable
                      then (Inl (BadRequest
                        ''Character must be at the same position as the interactable''), d)
                      else if \<not> i_is_active interactable
                      then (Inl (BadRequest ''Interactable is not active''), d)
                      else if max_uses interactable > 0 \<and>
                              current_uses interactable \<ge> max_uses interactable
                      then (Inl (BadRequest ''Interactable has been used maximum times''), d)
                      else
                        (case find (\<lambda>g. g_id g = i_game interactable) (games d) of
                           None \<Rightarrow> (Inl ServerError, d)
                         | Some game \<Rightarrow>
                             (case interactions interactable of
                                JList history \<Rightarrow>
                                  (let interactable' = interactable
                                         \<lparr>current_uses := current_uses interactable + 1,
                                          last_used_tick := Some (current_tick game),
                                          interactions := JList (history @
                                            [interaction_record character (current_tick game) t])\<rparr>
                                   in (Inr interactable', save_interactable interactable' d))
                              | _ \<Rightarrow> (Inl ServerError, d))))))"

text \<open>
  \<^verbatim>\<open>InteractableSerializer.get_can_use\<close>, with \<open>game\<close> the row \<^verbatim>\<open>obj.game\<close>. The test
  \<^verbatim>\<open>if obj.last_used_tick\<close> is Python truth: false for \<^verbatim>\<open>None\<close> and for \<open>0\<close>.
\<close>

definition get_can_use :: "game \<Rightarrow> interactable \<Rightarrow> bool" where
  "get_can_use game obj =
     (if max_uses obj > 0 \<and> current_uses obj \<ge> max_uses obj then False
      else if (case last_used_tick obj of
                 None \<Rightarrow> False
               | Some l \<Rightarrow> l \<noteq> 0 \<and> cooldown_ticks obj > 0 \<and>
                           current_tick game - l < cooldown_ticks obj)
      then False
      else i_is_active obj)"

section \<open>Joining a game (src/game/serializers.py, src/game/views.py)\<close>

text \<open>
  The body of a join request: the fields of \<^verbatim>\<open>PlayerCreateSerializer\<close>, each present or
  absent, the text fields as the strings sent. \<^verbatim>\<open>game\<close> and \<^verbatim>\<open>player_name\<close> are
  required; \<^verbatim>\<open>color\<close> and \<^verbatim>\<open>avatar\<close> have the model defaults \<^verbatim>\<open>'#FF0000'\<close> and
  \<^verbatim>\<open>''\<close>.
\<close>

record join_request =
  j_game :: "int option"
  j_player_name :: "string option"
  j_color :: "string option"
  j_avatar :: "string option"

text \<open>
  \<^verbatim>\<open>validate_color\<close>: the value, already trimmed by its field, starts with \<^verbatim>\<open>#\<close> and
  has seven characters.
\<close>

definition validate_color :: "string \<Rightarrow> error + string" where
  "validate_color v =
     (if \<not> (take 1 v = ''#'') \<or> length v \<noteq> 7
      then Inl (BadRequest ''Color must be in hex format (#RRGGBB)'')
      else Inr v)"

text \<open>\<^verbatim>\<open>game.players.filter(is_active=True).count()\<close>.\<close>

definition active_player_count :: "db \<Rightarrow> int \<Rightarrow> int" where
  "active_player_count d g =
     int (length (filter (\<lambda>p. p_game p = g \<and> p_is_active p) (players d)))"

text \<open>\<^verbatim>\<open>PlayerCreateSerializer.validate\<close>, for the game row that \<^verbatim>\<open>data.get('game')\<close> is.\<close>

definition validate_join :: "db \<Rightarrow> game \<Rightarrow> error + unit" where
  "validate_join d game =
     (if g_status game \<notin> {Waiting, Active}
      then Inl (BadRequest ''Cannot join a finished or paused game'')
      else if active_player_count d (g_id game) \<ge> max_players game
      then Inl (BadRequest ''Game is full'')
      else Inr ())"

text \<open>The key that the database gives a new row: above every key of the table.\<close>

definition next_id :: "int list \<Rightarrow> int" where
  "next_id ids = fold max ids 0 + 1"

text \<open>
  The field checks of \<^verbatim>\<open>PlayerCreateSerializer\<close>, from the declarations of
  \<^verbatim>\<open>Player\<close>: \<^verbatim>\<open>player_name = CharField(max_length=100)\<close>,
  \<^verbatim>\<open>color = CharField(max_length=7, default='#FF0000')\<close> followed by \<^verbatim>\<open>validate_color\<close>,
  \<^verbatim>\<open>avatar = CharField(max_length=255, blank=True)\<close>.
\<close>

definition field_player_name :: "string option \<Rightarrow> error + string" where
  "field_player_name v =
     (case v of
        None \<Rightarrow> Inl (BadRequest ''This field is required.'')
      | Some x \<Rightarrow> char_field 100 False x)"

definition field_color :: "string option \<Rightarrow> error + string" where
  "field_color v =
     (case v of
        None \<Rightarrow> Inr ''#FF0000''
      | Some x \<Rightarrow> (case char_field 7 False x of
                    Inl e \<Rightarrow> Inl e
                  | Inr s \<Rightarrow> validate_color s))"

definition field_avatar :: "string option \<Rightarrow> error + string" where
  "field_avatar v = (case v of None \<Rightarrow> Inr [] | Some x \<Rightarrow> char_field 255 True x)"

text \<open>
  \<^verbatim>\<open>PlayerViewSet.create\<close> with \<^verbatim>\<open>perform_create\<close>: field validation, \<^verbatim>\<open>validate\<close>, then
  the insert with \<^verbatim>\<open>user=self.request.user\<close>. The game field is required and refers to a
  stored game, or the request is invalid. The insert violates
  \<^verbatim>\<open>unique_together = [['game', 'user']]\<close> when the user already has a player in the game;
  the serializer has no \<^verbatim>\<open>user\<close> field and does not check it, so the database error is
  uncaught.
\<close>

definition join :: "int \<Rightarrow> join_request \<Rightarrow> db \<Rightarrow> (error + player) \<times> db" where
  "join user rq d =
     (case j_game rq of
        None \<Rightarrow> (Inl (BadRequest ''This field is required.''), d)
      | Some gid \<Rightarrow>
     (case find (\<lambda>g. g_id g = gid) (games d) of
        None \<Rightarrow> (Inl (BadRequest ''Invalid pk - object does not exist.''), d)
      | Some game \<Rightarrow>
     (case field_player_name (j_player_name rq) of
        Inl e \<Rightarrow> (Inl e, d)
      | Inr name \<Rightarrow>
     (case field_color (j_color rq) of
        Inl e \<Rightarrow> (Inl e, d)
      | Inr col \<Rightarrow>
     (case field_avatar (j_avatar rq) of
        Inl e \<Rightarrow> (Inl e, d)
      | Inr av \<Rightarrow>
     (case validate_join d game of
        Inl e \<Rightarrow> (Inl e, d)
      | Inr _ \<Rightarrow>
          if list_ex (\<lambda>p. p_game p = g_id game \<and> p_user p = user) (players d)
          then (Inl ServerError, d)
          else
            (let p = \<lparr>p_id = next_id (map p_id (players d)),
                      p_game = g_id game, p_user = user,
                      player_name = name, color = col, avatar = av,
                      p_is_active = True\<rparr>
             in (Inr p, d\<lparr>players := players d @ [p]\<rparr>))))))))"

section \<open>Hex tiles (src/game/serializers.py)\<close>

text \<open>\<^verbatim>\<open>HexTile.TERRAIN_CHOICES\<close>.\<close>

definition TERRAIN_CHOICES :: "string list" where
  "TERRAIN_CHOICES = [''plains'', ''forest'', ''mountain'', ''water'', ''desert'',
                      ''swamp'', ''snow'', ''urban'']"

text \<open>
  The fields of a tile request that \<^verbatim>\<open>validate\<close> reads with \<^verbatim>\<open>data.get\<close>: absent in a
  partial update, present otherwise.
\<close>

record tile_data =
  td_game :: "int option"
  td_q :: "int option"
  td_r :: "int option"
  td_terrain_type :: "string option"
  td_elevation :: "int option"
  td_is_passable :: "bool option"

text \<open>
  \<^verbatim>\<open>HexTile.objects.filter(game=game, q=q, r=r)\<close>; a lookup value \<^verbatim>\<open>None\<close> matches no row
  of a non-null column.
\<close>

definition tiles_at :: "db \<Rightarrow> int option \<Rightarrow> int option \<Rightarrow> int option \<Rightarrow> hex_tile list" where
  "tiles_at d g nq nr =
     filter (\<lambda>t. g = Some (t_game t) \<and> nq = Some (q t) \<and> nr = Some (r t)) (hex_tiles d)"

text \<open>\<^verbatim>\<open>HexTileSerializer.validate\<close>; \<open>instance\<close> is \<^verbatim>\<open>self.instance\<close>.\<close>

definition validate_tile :: "db \<Rightarrow> hex_tile option \<Rightarrow> tile_data \<Rightarrow> error + tile_data" where
  "validate_tile d instance data =
     (case instance of
        Some i \<Rightarrow>
          if filter (\<lambda>t. t_id t \<noteq> t_id i) (tiles_at d (td_game data) (td_q data) (td_r data)) \<noteq> []
          then Inl (BadRequest ''A tile already exists at these coordinates'')
          else Inr data
      | None \<Rightarrow>
          if tiles_at d (td_game data) (td_q data) (td_r data) \<noteq> []
          then Inl (BadRequest ''A tile already exists at these coordinates'')
          else Inr data)"

text \<open>
  The insert of a tile row. The database enforces
  \<^verbatim>\<open>unique_together = [['game', 'q', 'r']]\<close> of \<^verbatim>\<open>HexTile.Meta\<close> itself and raises otherwise.
\<close>

definition insert_tile :: "hex_tile \<Rightarrow> db \<Rightarrow> error + db" where
  "insert_tile t d =
     (if list_ex (\<lambda>x. t_game x = t_game t \<and> q x = q t \<and> r x = r t) (hex_tiles d)
      then Inl ServerError
      else Inr (d\<lparr>hex_tiles := hex_tiles d @ [t]\<rparr>))"

text \<open>
  \<^verbatim>\<open>create\<close> of the tile view set with \<^verbatim>\<open>HexTileSerializer\<close>: \<^verbatim>\<open>game\<close>, \<^verbatim>\<open>q\<close> and
  \<^verbatim>\<open>r\<close> are required, the game must be stored, the terrain must be one of the choices;
  then \<^verbatim>\<open>validate\<close> with no instance, then the insert. The validator that the serializer
  takes from \<^verbatim>\<open>unique_together\<close> refuses the same requests as \<^verbatim>\<open>validate\<close>, with the same
  status and a message of its own; only the status is used below.
\<close>

definition create_tile :: "tile_data \<Rightarrow> db \<Rightarrow> (error + hex_tile) \<times> db" where
  "create_tile data d =
     (case (td_game data, td_q data, td_r data) of
        (Some g, Some nq, Some nr) \<Rightarrow>
          if \<not> list_ex (\<lambda>x. g_id x = g) (games d)
          then (Inl (BadRequest ''Invalid pk - object does not exist.''), d)
          else if (case td_terrain_type data of None \<Rightarrow> False
                   | Some tt \<Rightarrow> tt \<notin> set TERRAIN_CHOICES)
          then (Inl (BadRequest ''Not a valid choice.''), d)
          else
            (case validate_tile d None data of
               Inl e \<Rightarrow> (Inl e, d)
             | Inr _ \<Rightarrow>
                 (let t = \<lparr>t_id = next_id (map t_id (hex_tiles d)), t_game = g, q = nq, r = nr,
                           terrain_type = (case td_terrain_type data of
                                             None \<Rightarrow> ''plains'' | Some tt \<Rightarrow> tt),
                           elevation = (case td_elevation data of None \<Rightarrow> 0 | Some e \<Rightarrow> e),
                           is_passable = (case td_is_passable data of
                                            None \<Rightarrow> True | Some b \<Rightarrow> b)\<rparr>
                  in (case insert_tile t d of
                        Inl e \<Rightarrow> (Inl e, d)
                      | Inr d' \<Rightarrow> (Inr t, d'))))
      | _ \<Rightarrow> (Inl (BadRequest ''This field is required.''), d))"

text \<open>A sequence of create requests, each on the store the previous one left.\<close>

fun create_tiles :: "tile_data list \<Rightarrow> db \<Rightarrow> db" where
  "create_tiles [] d = d"
| "create_tiles (x # xs) d = create_tiles xs (snd (create_tile x d))"

text \<open>
  The uniqueness constraint \<^verbatim>\<open>unique_together = [['game', 'q', 'r']]\<close> of
  \<^verbatim>\<open>HexTile.Meta\<close>, as a predicate on the stored tiles.
\<close>

definition tiles_unique :: "hex_tile list \<Rightarrow> bool" where
  "tiles_unique ts = distinct (map (\<lambda>t. (t_game t, q t, r t)) ts)"


section \<open>Item catalog (src/items/models.py, src/items/serializers.py)\<close>

text \<open>
  The rarities that both the model's \<^verbatim>\<open>choices\<close> and \<^verbatim>\<open>validate_rarity\<close> list.
\<close>

definition RARITY_CHOICES :: "string list" where
  "RARITY_CHOICES = [''common'', ''rare'', ''legendary'']"

text \<open>
  The body of a create or update request: each field present or absent. The nullable
  fields \<^verbatim>\<open>durability\<close> and \<^verbatim>\<open>stat_modifiers\<close> may be present with the value null
  (\<^verbatim>\<open>Some None\<close>, \<^verbatim>\<open>Some JNull\<close>). The fields that no method of the serializers reads
  (description, icon, effect, category, sub_category, is_active) are left out.
\<close>

record item_request =
  ir_name :: "string option"
  ir_type :: "string option"
  ir_rarity :: "string option"
  ir_stat_modifiers :: "json option"
  ir_durability :: "int option option"
  ir_stack_size :: "int option"
  ir_cooldown :: "int option"
  ir_upgrade_level :: "int option"
  ir_drop_rate :: "real option"

text \<open>The methods \<^verbatim>\<open>validate_<field>\<close> of \<^verbatim>\<open>ItemCreateSerializer\<close>.\<close>

definition validate_name :: "string \<Rightarrow> error + string" where
  "validate_name v =
     (if v = [] \<or> py_strip v = [] then Inl (BadRequest ''Item name cannot be empty'')
      else Inr (py_strip v))"

definition validate_rarity :: "string \<Rightarrow> error + string" where
  "validate_rarity v =
     (if v \<notin> set [''common'', ''rare'', ''legendary'']
      then Inl (BadRequest ''Rarity must be one of: common, rare, legendary'')
      else Inr v)"

definition validate_stack_size :: "int \<Rightarrow> error + int" where
  "validate_stack_size v =
     (if v < 1 then Inl (BadRequest ''Stack size must be at least 1'')
      else if v > 9999 then Inl (BadRequest ''Stack size cannot exceed 9999'')
      else Inr v)"

definition validate_cooldown :: "int \<Rightarrow> error + int" where
  "validate_cooldown v =
     (if v < 0 then Inl (BadRequest ''Cooldown cannot be negative'') else Inr v)"

definition validate_upgrade_level :: "int \<Rightarrow> error + int" where
  "validate_upgrade_level v =
     (if v < 0 then Inl (BadRequest ''Upgrade level cannot be negative'')
      else if v > 100 then Inl (BadRequest ''Upgrade level cannot exceed 100'')
      else Inr v)"

definition validate_drop_rate :: "real \<Rightarrow> error + real" where
  "validate_drop_rate v =
     (if v < 0 \<or> v > 1 then Inl (BadRequest ''Drop rate must be between 0.0 and 1.0'')
      else Inr v)"

definition validate_durability :: "int option \<Rightarrow> error + int option" where
  "validate_durability v =
     (case v of
        None \<Rightarrow> Inr v
      | Some n \<Rightarrow> if n < 0 then Inl (BadRequest ''Durability cannot be negative'') else Inr v)"

text \<open>
  \<^verbatim>\<open>isinstance(val, (int, float))\<close>: true of an integer, of a float, and of a boolean,
  \<^verbatim>\<open>bool\<close> being a subclass of \<^verbatim>\<open>int\<close>.
\<close>

fun isinstance_int_float :: "json \<Rightarrow> bool" where
  "isinstance_int_float (JInt n) = True"
| "isinstance_int_float (JFloat x) = True"
| "isinstance_int_float (JBool b) = True"
| "isinstance_int_float _ = False"

definition validate_stat_modifiers :: "json \<Rightarrow> error + json" where
  "validate_stat_modifiers v =
     (case v of
        JNull \<Rightarrow> Inr v
      | JDict kvs \<Rightarrow>
          (case find (\<lambda>kv. \<not> isinstance_int_float (snd kv)) kvs of
             None \<Rightarrow> Inr v
           | Some kv \<Rightarrow> Inl (BadRequest (''stat_modifiers['' @ fst kv @ ''] must be a number'')))
      | _ \<Rightarrow> Inl (BadRequest ''stat_modifiers must be a dictionary''))"

text \<open>
  The checks that a model serializer takes from the model's declaration of a field:
  \<^verbatim>\<open>name\<close> is a \<^verbatim>\<open>CharField(max_length=255, unique=True)\<close> and \<^verbatim>\<open>type\<close> a
  \<^verbatim>\<open>CharField(max_length=50)\<close>, trimmed and not blank; \<^verbatim>\<open>rarity\<close> has \<^verbatim>\<open>choices\<close>.
  \<open>taken\<close> are the names of the other stored items.
\<close>

definition field_name :: "string list \<Rightarrow> string \<Rightarrow> error + string" where
  "field_name taken v =
     (case char_field 255 False v of
        Inl e \<Rightarrow> Inl e
      | Inr s \<Rightarrow> if s \<in> set taken then Inl (BadRequest ''item with this name already exists.'')
                 else Inr s)"

definition field_type :: "string \<Rightarrow> error + string" where
  "field_type v = char_field 50 False v"

definition field_rarity :: "string \<Rightarrow> error + string" where
  "field_rarity v =
     (if v \<in> set RARITY_CHOICES then Inr v else Inl (BadRequest ''Not a valid choice.''))"

text \<open>
  Running the fields of a serializer: a failed check ends the validation; a required field
  must be present; an absent optional field is skipped.
\<close>

definition then_check :: "error + 'a \<Rightarrow> ('a \<Rightarrow> error + 'b) \<Rightarrow> error + 'b" where
  "then_check m f = (case m of Inl e \<Rightarrow> Inl e | Inr v \<Rightarrow> f v)"

definition required :: "bool \<Rightarrow> 'a option \<Rightarrow> ('a \<Rightarrow> error + 'a) \<Rightarrow> error + 'a option" where
  "required partial v f =
     (case v of
        None \<Rightarrow> if partial then Inr None else Inl (BadRequest ''This field is required.'')
      | Some x \<Rightarrow> then_check (f x) (\<lambda>y. Inr (Some y)))"

definition optional :: "'a option \<Rightarrow> ('a \<Rightarrow> error + 'a) \<Rightarrow> error + 'a option" where
  "optional v f =
     (case v of None \<Rightarrow> Inr None | Some x \<Rightarrow> then_check (f x) (\<lambda>y. Inr (Some y)))"

text \<open>
  \<^verbatim>\<open>ItemCreateSerializer\<close>: every field passes the check of its declaration and then its
  \<^verbatim>\<open>validate_<field>\<close> method. The result is the validated data.
\<close>

definition validate_item_create :: "string list \<Rightarrow> item_request \<Rightarrow> error + item_request" where
  "validate_item_create taken rq =
     then_check (required False (ir_name rq)
                   (\<lambda>v. then_check (field_name taken v) validate_name)) (\<lambda>name.
     then_check (required False (ir_type rq) field_type) (\<lambda>type.
     then_check (required False (ir_rarity rq)
                   (\<lambda>v. then_check (field_rarity v) validate_rarity)) (\<lambda>rarity.
     then_check (optional (ir_stat_modifiers rq) validate_stat_modifiers) (\<lambda>stat_modifiers.
     then_check (optional (ir_durability rq) validate_durability) (\<lambda>durability.
     then_check (optional (ir_stack_size rq) validate_stack_size) (\<lambda>stack_size.
     then_check (optional (ir_cooldown rq) validate_cooldown) (\<lambda>cooldown.
     then_check (optional (ir_upgrade_level rq) validate_upgrade_level) (\<lambda>upgrade_level.
     then_check (optional (ir_drop_rate rq) validate_drop_rate) (\<lambda>drop_rate.
     Inr \<lparr>ir_name = name, ir_type = type, ir_rarity = rarity,
          ir_stat_modifiers = stat_modifiers, ir_durability = durability,
          ir_stack_size = stack_size, ir_cooldown = cooldown,
          ir_upgrade_level = upgrade_level, ir_drop_rate = drop_rate\<rparr>)))))))))"

text \<open>
  \<^verbatim>\<open>ItemUpdateSerializer\<close>, for \<^verbatim>\<open>update\<close> (\<open>partial = False\<close>) and \<^verbatim>\<open>partial_update\<close>.
  It has no \<^verbatim>\<open>validate_name\<close> and no \<^verbatim>\<open>validate_rarity\<close>: for these two fields only the
  checks of the declaration run.
\<close>

definition validate_item_update ::
  "bool \<Rightarrow> string list \<Rightarrow> item_request \<Rightarrow> error + item_request" where
  "validate_item_update partial taken rq =
     then_check (required partial (ir_name rq) (field_name taken)) (\<lambda>name.
     then_check (required partial (ir_type rq) field_type) (\<lambda>type.
     then_check (required partial (ir_rarity rq) field_rarity) (\<lambda>rarity.
     then_check (optional (ir_stat_modifiers rq) validate_stat_modifiers) (\<lambda>stat_modifiers.
     then_check (optional (ir_durability rq) validate_durability) (\<lambda>durability.
     then_check (optional (ir_stack_size rq) validate_stack_size) (\<lambda>stack_size.
     then_check (optional (ir_cooldown rq) validate_cooldown) (\<lambda>cooldown.
     then_check (optional (ir_upgrade_level rq) validate_upgrade_level) (\<lambda>upgrade_level.
     then_check (optional (ir_drop_rate rq) validate_drop_rate) (\<lambda>drop_rate.
     Inr \<lparr>ir_name = name, ir_type = type, ir_rarity = rarity,
          ir_stat_modifiers = stat_modifiers, ir_durability = durability,
          ir_stack_size = stack_size, ir_cooldown = cooldown,
          ir_upgrade_level = upgrade_level, ir_drop_rate = drop_rate\<rparr>)))))))))"

section \<open>A small world\<close>

text \<open>
  Game 1 is active at tick 12, with room for two players. It has a passable tile at
  \<open>(0, 0)\<close> and an impassable one at \<open>(1, 0)\<close>; a living character 1 and a dead
  character 2 of player 1, both at \<open>(0, 0)\<close>; a map item and an interactable there.
\<close>

definition game1 :: game where
  "game1 = \<lparr>g_id = 1, g_status = Active, max_players = 2, current_tick = 12\<rparr>"

definition alice :: player where
  "alice = \<lparr>p_id = 1, p_game = 1, p_user = 7, player_name = ''Alice'', color = ''#FF0000'',
             avatar = [], p_is_active = True\<rparr>"

definition plains00 :: hex_tile where
  "plains00 = \<lparr>t_id = 1, t_game = 1, q = 0, r = 0, terrain_type = ''plains'', elevation = 0,
                is_passable = True\<rparr>"

definition water10 :: hex_tile where
  "water10 = \<lparr>t_id = 2, t_game = 1, q = 1, r = 0, terrain_type = ''water'', elevation = 0,
               is_passable = False\<rparr>"

definition scout :: character where
  "scout = \<lparr>c_id = 1, c_game = 1, c_owner = 1, character_type = ''scout'', c_name = ''Ann'',
             is_hero = False, health = 100, max_health = 100, stamina = 100, max_stamina = 100,
             experience = 0, level = 1, c_position_q = 0, c_position_r = 0, c_status = Moving,
             movement_path = JList [], movement_points = 3, max_movement_points = 3,
             inventory = JList [], inventory_capacity = 20, current_orders = JDict [],
             in_combat = False, combat_id = [], attributes = JDict [], skills = JList [],
             died_at = None\<rparr>"

definition fallen :: character where
  "fallen = scout\<lparr>c_id := 2, c_name := ''Bob'', health := 0, c_status := Dead,
                   died_at := Some ''2024-01-01T00:00:00''\<rparr>"

definition potion :: map_item where
  "potion = \<lparr>m_id = 5, m_game = 1, item_type = ''potion'', item_id = ''potion-001'',
              m_position_q = 0, m_position_r = 0, quantity = 3, is_available = True,
              collected_at = None, collected_by = None\<rparr>"

definition shrine :: interactable where
  "shrine = \<lparr>i_id = 4, i_game = 1, interactable_type = ''shrine'', interactable_id = ''shrine-1'',
              i_name = ''Shrine'', i_position_q = 0, i_position_r = 0, i_state = ''active'',
              i_is_active = True, required_level = 1, max_uses = 2, current_uses = 0,
              cooldown_ticks = 5, last_used_tick = None, interactions = JList []\<rparr>"

definition world :: db where
  "world = \<lparr>games = [game1], players = [alice], hex_tiles = [plains00, water10],
             characters = [scout, fallen], map_items = [potion], interactables = [shrine]\<rparr>"

text \<open>
  The shrine after one use at tick 0, seen at tick 2; and after one use at tick 10, in the
  world at tick 12.
\<close>

definition used_at_tick0 :: interactable where
  "used_at_tick0 = shrine\<lparr>current_uses := 1, last_used_tick := Some 0\<rparr>"

definition game1_tick2 :: game where
  "game1_tick2 = game1\<lparr>current_tick := 2\<rparr>"



text \<open>The shrine after a client has written the object \<^verbatim>\<open>{}\<close> to its history.\<close>

definition scribbled :: interactable where
  "scribbled = shrine\<lparr>interactions := JDict []\<rparr>"

definition scribbled_world :: db where
  "scribbled_world = world\<lparr>interactables := [scribbled]\<rparr>"

text \<open>The small world with a character and an available map item whose key is 0.\<close>

definition zero_world :: db where
  "zero_world = world\<lparr>characters := [scout\<lparr>c_id := 0\<rparr>, scout],
                       map_items := [potion\<lparr>m_id := 0\<rparr>]\<rparr>"

text \<open>A create request for a forest tile of game \<open>g\<close> at \<open>(nq, nr)\<close>.\<close>

definition tile_req :: "int \<Rightarrow> int \<Rightarrow> int \<Rightarrow> tile_data" where
  "tile_req g nq nr = \<lparr>td_game = Some g, td_q = Some nq, td_r = Some nr,
                        td_terrain_type = Some ''forest'', td_elevation = None,
                        td_is_passable = None\<rparr>"

section \<open>Sequences of requests\<close>

text \<open>
  The requests modelled above, with their arguments, and the store that a request and a
  sequence of requests leave.
\<close>

datatype api_op =
    Retrieve query_params int
  | Update query_params int character_update
  | PartialUpdate query_params int character_update
  | Move query_params int "int option" "int option"
  | Loot query_params int json timestamp timestamp
  | Destroy query_params int
  | Interact interactable_params int json timestamp
  | CreateTile tile_data
  | Join int join_request

fun run_op :: "api_op \<Rightarrow> db \<Rightarrow> db" where
  "run_op (Retrieve qp pk) d = snd (retrieve_character qp pk d)"
| "run_op (Update qp pk u) d = snd (update_character False qp pk u d)"
| "run_op (PartialUpdate qp pk u) d = snd (update_character True qp pk u d)"
| "run_op (Move qp pk rq rr) d = snd (move qp pk rq rr d)"
| "run_op (Loot qp pk rid t1 t2) d = snd (loot qp pk rid t1 t2 d)"
| "run_op (Destroy qp pk) d = snd (destroy_character qp pk d)"
| "run_op (Interact ip pk rcid t) d = snd (interact ip pk rcid t d)"
| "run_op (CreateTile data) d = snd (create_tile data d)"
| "run_op (Join user rq) d = snd (join user rq d)"

fun run_ops :: "api_op list \<Rightarrow> db \<Rightarrow> db" where
  "run_ops [] d = d"
| "run_ops (x # xs) d = run_ops xs (run_op x d)"

text \<open>
  How one request may change the character table: not at all, by overwriting the row of a
  living character with a row of the same key, or by deleting the row of a living character.
\<close>

definition character_rows_step :: "character list \<Rightarrow> character list \<Rightarrow> bool" where
  "character_rows_step cs cs' =
     (cs' = cs \<or>
      (\<exists>x x'. x \<in> set cs \<and> c_status x \<noteq> Dead \<and> c_id x' = c_id x \<and>
               cs' = map (\<lambda>y. if c_id y = c_id x' then x' else y) cs) \<or>
      (\<exists>x. x \<in> set cs \<and> c_status x \<noteq> Dead \<and>
           cs' = filter (\<lambda>y. c_id y \<noteq> c_id x) cs))"

text \<open>An update body with no field, and one that asks for the status \<^verbatim>\<open>idle\<close>.\<close>

definition no_update :: character_update where
  "no_update = \<lparr>u_health = None, u_stamina = None, u_experience = None, u_level = None,
                 u_position_q = None, u_position_r = None, u_status = None,
                 u_movement_path = None, u_movement_points = None, u_inventory = None,
                 u_current_orders = None, u_in_combat = None, u_combat_id = None,
                 u_attributes = None, u_skills = None\<rparr>"

definition revive :: character_update where
  "revive = no_update\<lparr>u_position_q := Some 0, u_position_r := Some 0, u_status := Some Idle\<rparr>"

text \<open>An update body that writes the object \<^verbatim>\<open>{"a": 1}\<close> to the inventory.\<close>

definition scribble :: character_update where
  "scribble = no_update\<lparr>u_inventory := Some (JDict [(''a'', JInt 1)])\<rparr>"

section \<open>Looting: what the claims speak of\<close>




section \<open>Interacting: what the claims speak of\<close>

text \<open>
  A sequence of \<^verbatim>\<open>interact\<close> requests on one interactable, each with its
  \<^verbatim>\<open>character_id\<close> and its reading of \<^verbatim>\<open>now()\<close>: the responses in order, and the store
  at the end.
\<close>

fun interact_all ::
  "interactable_params \<Rightarrow> int \<Rightarrow> (json \<times> timestamp) list \<Rightarrow> db \<Rightarrow>
   (error + interactable) list \<times> db" where
  "interact_all ip pk [] d = ([], d)"
| "interact_all ip pk (x # xs) d =
     (let (resp, d1) = interact ip pk (fst x) (snd x) d;
          (resps, d2) = interact_all ip pk xs d1
      in (resp # resps, d2))"

text \<open>
  The character that a \<^verbatim>\<open>character_id\<close> names, when it is a character of the
  interactable's game standing at the interactable's position.
\<close>

definition requester :: "db \<Rightarrow> interactable \<Rightarrow> json \<Rightarrow> character option" where
  "requester d i rcid =
     (if \<not> truthy rcid then None
      else (case orm_int rcid of
              None \<Rightarrow> None
            | Some cid \<Rightarrow>
                (case find (\<lambda>c. c_id c = cid \<and> c_game c = i_game i) (characters d) of
                   None \<Rightarrow> None
                 | Some c \<Rightarrow>
                     if c_position_q c = i_position_q i \<and> c_position_r c = i_position_r i
                     then Some c else None)))"

text \<open>The filters of \<^verbatim>\<open>InteractableViewSet.get_queryset\<close> as one predicate on a row.\<close>

definition iparams_match :: "interactable_params \<Rightarrow> interactable \<Rightarrow> bool" where
  "iparams_match ip i =
     ((case iq_game ip of None \<Rightarrow> True | Some g \<Rightarrow> i_game i = g) \<and>
      (case iq_active ip of None \<Rightarrow> True | Some a \<Rightarrow> i_is_active i = a) \<and>
      (case (iq_q ip, iq_r ip) of
         (Some fq, Some fr) \<Rightarrow> i_position_q i = fq \<and> i_position_r i = fr
       | _ \<Rightarrow> True))"

text \<open>The row that a successful \<^verbatim>\<open>interact\<close> by character \<open>c\<close> at time \<open>t\<close> saves.\<close>

definition used :: "interactable \<Rightarrow> character \<Rightarrow> game \<Rightarrow> timestamp \<Rightarrow> interactable" where
  "used i c g t =
     i\<lparr>current_uses := current_uses i + 1,
       last_used_tick := Some (current_tick g),
       interactions :=
         (case interactions i of
            JList history \<Rightarrow> JList (history @ [interaction_record c (current_tick g) t])
          | other \<Rightarrow> other)\<rparr>"

section \<open>Joining: what the claims speak of\<close>

text \<open>
  The colour format in the spec's words, \<^verbatim>\<open>#RRGGBB\<close>: a \<^verbatim>\<open>#\<close> followed by six
  hexadecimal digits. It is compared with \<^verbatim>\<open>validate_color\<close> below.
\<close>

definition hex_digit :: "char \<Rightarrow> bool" where
  "hex_digit c =
     (let n = (of_char c :: nat)
      in (48 \<le> n \<and> n \<le> 57) \<or> (65 \<le> n \<and> n \<le> 70) \<or> (97 \<le> n \<and> n \<le> 102))"

definition spec_hex_color :: "string \<Rightarrow> bool" where
  "spec_hex_color v =
     (case v of
        [] \<Rightarrow> False
      | c # cs \<Rightarrow> c = CHR ''#'' \<and> length cs = 6 \<and> list_all hex_digit cs)"





definition join_not_hex :: join_request where
  "join_not_hex = \<lparr>j_game = Some 1, j_player_name = Some ''Bea'',
                    j_color = Some ''#GGGGGG'', j_avatar = None\<rparr>"

section \<open>Item catalog: what the claims speak of\<close>

text \<open>
  The claim's words for \<^verbatim>\<open>stat_modifiers\<close>: a flat mapping whose values are all numbers.
\<close>

fun is_number :: "json \<Rightarrow> bool" where
  "is_number (JInt n) = True"
| "is_number (JFloat x) = True"
| "is_number _ = False"

definition spec_flat_numeric_mapping :: "json \<Rightarrow> bool" where
  "spec_flat_numeric_mapping v =
     (case v of JDict kvs \<Rightarrow> list_all (\<lambda>kv. is_number (snd kv)) kvs | _ \<Rightarrow> False)"

text \<open>
  The bounds of claim C7 on the validated data, with \<^verbatim>\<open>isinstance\<close> for the values of
  \<^verbatim>\<open>stat_modifiers\<close>.
\<close>

definition accepted_fields :: "item_request \<Rightarrow> bool" where
  "accepted_fields v =
     ((\<forall>n. ir_stack_size v = Some n \<longrightarrow> 1 \<le> n \<and> n \<le> 9999) \<and>
      (\<forall>n. ir_cooldown v = Some n \<longrightarrow> 0 \<le> n) \<and>
      (\<forall>n. ir_upgrade_level v = Some n \<longrightarrow> 0 \<le> n \<and> n \<le> 100) \<and>
      (\<forall>x. ir_drop_rate v = Some x \<longrightarrow> 0 \<le> x \<and> x \<le> 1) \<and>
      (\<forall>n. ir_durability v = Some (Some n) \<longrightarrow> 0 \<le> n) \<and>
      (\<forall>j. ir_stat_modifiers v = Some j \<longrightarrow>
           j = JNull \<or> (\<exists>kvs. j = JDict kvs \<and>
                           list_all (\<lambda>kv. isinstance_int_float (snd kv)) kvs)))"

text \<open>A sword whose \<^verbatim>\<open>stat_modifiers\<close> are \<^verbatim>\<open>{"strength": true}\<close>.\<close>

definition sword :: item_request where
  "sword = \<lparr>ir_name = Some ''Sword'', ir_type = Some ''weapon'', ir_rarity = Some ''common'',
            ir_stat_modifiers = Some (JDict [(''strength'', JBool True)]),
            ir_durability = None, ir_stack_size = None, ir_cooldown = None,
            ir_upgrade_level = None, ir_drop_rate = None\<rparr>"

section \<open>Moving a character\<close>







section \<open>Using an interactable: cooldown\<close>

text \<open>
  Claim C4 says that \<^verbatim>\<open>can_use\<close> is false whenever \<^verbatim>\<open>last_used_tick\<close> is set and fewer than
  \<^verbatim>\<open>cooldown_ticks\<close> ticks have passed. The code tests \<^verbatim>\<open>last_used_tick\<close> for truth, so a use
  at tick 0 counts as no use: the shrine below was used at tick 0, has a cooldown of 5
  ticks, is active and under its limit, and at tick 2 \<^verbatim>\<open>can_use\<close> is true.
\<close>

theorem can_use_true_on_cooldown_from_tick_zero:
  "max_uses used_at_tick0 = 2 \<and> current_uses used_at_tick0 = 1 \<and> i_is_active used_at_tick0 \<and>
   cooldown_ticks used_at_tick0 = 5 \<and> last_used_tick used_at_tick0 = Some 0 \<and>
   current_tick game1_tick2 = 2 \<and> get_can_use game1_tick2 used_at_tick0 = True"
  by code_simp

text \<open>What \<^verbatim>\<open>get_can_use\<close> computes, and the two ticks that claim C4 names.\<close>

lemma can_use_cases:
  "get_can_use g i =
     (if max_uses i > 0 \<and> current_uses i \<ge> max_uses i then False
      else if \<exists>l. last_used_tick i = Some l \<and> l \<noteq> 0 \<and> cooldown_ticks i > 0 \<and>
                   current_tick g - l < cooldown_ticks i then False
      else i_is_active i)"
  by (auto simp: get_can_use_def split: option.splits)

lemma can_use_cooldown_5_10:
  assumes "cooldown_ticks i = 5" "last_used_tick i = Some 10" "i_is_active i"
    "\<not> (max_uses i > 0 \<and> current_uses i \<ge> max_uses i)"
  shows "\<not> get_can_use (g\<lparr>current_tick := 14\<rparr>) i \<and> get_can_use (g\<lparr>current_tick := 15\<rparr>) i"
  using assms by (simp add: get_can_use_def)



section \<open>Missing and falsy identifiers\<close>

text \<open>
  Claim C10, as the code has it. Once the object lookup of the request has yielded the
  character (for \<^verbatim>\<open>loot\<close>) or the interactable (for \<^verbatim>\<open>interact\<close>), a request whose
  \<^verbatim>\<open>item_id\<close> or \<^verbatim>\<open>character_id\<close> is absent or falsy fails with the 400 "required" error and
  leaves the store as it was, whatever rows the store holds: the value 0 is a missing
  parameter, not a key.
\<close>

theorem falsy_id_is_required_error:
  assumes "\<not> truthy rid"
  shows "(get_object qp pk d = Inr c \<longrightarrow>
            loot qp pk rid t1 t2 d = (Inl (BadRequest ''item_id is required''), d)) \<and>
         (get_interactable ip k d = Inr i \<longrightarrow>
            interact ip k rid t d = (Inl (BadRequest ''character_id is required''), d))"
  using assms by (simp add: loot_def interact_def)

text \<open>With the value 0, in a world that has a map item and a character with key 0.\<close>

theorem falsy_id_is_required_error_witness:
  "\<not> truthy (JInt 0) \<and>
   list_ex (\<lambda>m. m_id m = 0 \<and> is_available m) (map_items zero_world) \<and>
   list_ex (\<lambda>c. c_id c = 0) (characters zero_world) \<and>
   loot no_params 1 (JInt 0) ''t1'' ''t2'' zero_world =
     (Inl (BadRequest ''item_id is required''), zero_world) \<and>
   interact no_iparams 4 (JInt 0) ''t'' zero_world =
     (Inl (BadRequest ''character_id is required''), zero_world)"
proof -
  have f: "\<not> truthy (JInt 0)" by simp
  have c: "get_object no_params 1 zero_world = Inr scout" by code_simp
  have i: "get_interactable no_iparams 4 zero_world = Inr shrine" by code_simp
  have m: "list_ex (\<lambda>m. m_id m = 0 \<and> is_available m) (map_items zero_world)"
    "list_ex (\<lambda>c. c_id c = 0) (characters zero_world)" by code_simp+
  show ?thesis
    using falsy_id_is_required_error [OF f, of no_params 1 zero_world scout
        "''t1''" "''t2''" no_iparams 4 shrine "''t''"] c i m
    by simp
qed

text \<open>The absent value, the number 0 and the empty string are falsy.\<close>

lemma falsy_values: "\<not> truthy JNull" "\<not> truthy (JInt 0)" "\<not> truthy (JStr [])"
  by simp_all

text \<open>
  Claim C10 as stated speaks of every loot request. For the dead character 2 the object
  lookup fails first, and a request with \<^verbatim>\<open>item_id\<close> 0 is answered 404, not 400.
\<close>

theorem falsy_id_dead_character_counterexample:
  "\<not> truthy (JInt 0) \<and> loot no_params 2 (JInt 0) ''t1'' ''t2'' world = (Inl Http404, world)"
  by code_simp


lemma interact_unknown_interactable:
  "get_interactable ip k d = Inl e \<Longrightarrow> interact ip k rid t d = (Inl Http404, d)"
  by (auto simp: interact_def get_interactable_def split: option.splits)

section \<open>Tiles are unique per game and coordinates\<close>

text \<open>
  A create request either leaves the store as it was or appends one tile whose key
  \<open>(game, q, r)\<close> no stored tile has.
\<close>

lemma tiles_at_empty_iff:
  "(tiles_at d (Some g) (Some nq) (Some nr) = []) =
   (\<not> list_ex (\<lambda>x. t_game x = g \<and> q x = nq \<and> r x = nr) (hex_tiles d))"
  by (auto simp: tiles_at_def filter_empty_conv list_ex_iff)

lemma create_tile_duplicate:
  assumes "tiles_at d (td_game data) (td_q data) (td_r data) \<noteq> []"
  shows "\<exists>msg. create_tile data d = (Inl (BadRequest msg), d)"
proof -
  from assms obtain g nq nr where
    k: "td_game data = Some g" "td_q data = Some nq" "td_r data = Some nr"
    by (cases "td_game data"; cases "td_q data"; cases "td_r data")
       (auto simp: tiles_at_def filter_empty_conv)
  with assms show ?thesis
    by (simp add: create_tile_def validate_tile_def)
qed

lemma create_tile_cases:
  "snd (create_tile data d) = d \<or>
   (\<exists>t. snd (create_tile data d) = d\<lparr>hex_tiles := hex_tiles d @ [t]\<rparr> \<and>
        \<not> list_ex (\<lambda>x. t_game x = t_game t \<and> q x = q t \<and> r x = r t) (hex_tiles d))"
proof (cases "\<exists>g nq nr. td_game data = Some g \<and> td_q data = Some nq \<and> td_r data = Some nr")
  case False
  then have "snd (create_tile data d) = d"
    by (cases "td_game data"; cases "td_q data"; cases "td_r data")
       (simp_all add: create_tile_def)
  then show ?thesis ..
next
  case True
  then obtain g nq nr where
    k: "td_game data = Some g" "td_q data = Some nq" "td_r data = Some nr"
    by blast
  show ?thesis
  proof (cases "list_ex (\<lambda>x. t_game x = g \<and> q x = nq \<and> r x = nr) (hex_tiles d)")
    case True
    then have "tiles_at d (Some g) (Some nq) (Some nr) \<noteq> []"
      by (simp add: tiles_at_empty_iff)
    with k have "snd (create_tile data d) = d"
      by (simp add: create_tile_def validate_tile_def)
    then show ?thesis ..
  next
    case False
    then have e: "tiles_at d (Some g) (Some nq) (Some nr) = []"
      by (simp add: tiles_at_empty_iff)
    show ?thesis
    proof (cases "\<not> list_ex (\<lambda>x. g_id x = g) (games d) \<or>
                  (case td_terrain_type data of None \<Rightarrow> False
                   | Some tt \<Rightarrow> tt \<notin> set TERRAIN_CHOICES)")
      case True
      with k have "snd (create_tile data d) = d"
        by (auto simp: create_tile_def)
      then show ?thesis ..
    next
      case ok: False
      define t where "t = \<lparr>t_id = next_id (map t_id (hex_tiles d)), t_game = g, q = nq, r = nr,
                           terrain_type = (case td_terrain_type data of
                                             None \<Rightarrow> ''plains'' | Some tt \<Rightarrow> tt),
                           elevation = (case td_elevation data of None \<Rightarrow> 0 | Some e \<Rightarrow> e),
                           is_passable = (case td_is_passable data of
                                            None \<Rightarrow> True | Some b \<Rightarrow> b)\<rparr>"
      have key: "t_game t = g" "q t = nq" "r t = nr"
        by (simp_all add: t_def)
      from False key have ins: "insert_tile t d = Inr (d\<lparr>hex_tiles := hex_tiles d @ [t]\<rparr>)"
        by (simp add: insert_tile_def)
      from ok k e have "create_tile data d = (case insert_tile t d of
                        Inl e \<Rightarrow> (Inl e, d)
                      | Inr d' \<Rightarrow> (Inr t, d'))"
        unfolding create_tile_def validate_tile_def t_def by (simp add: Let_def)
      with ins have "snd (create_tile data d) = d\<lparr>hex_tiles := hex_tiles d @ [t]\<rparr>"
        by simp
      with False key show ?thesis
        by auto
    qed
  qed
qed

lemma create_tile_unique:
  assumes "tiles_unique (hex_tiles d)"
  shows "tiles_unique (hex_tiles (snd (create_tile data d)))"
proof -
  from create_tile_cases [of data d] show ?thesis
  proof
    assume "snd (create_tile data d) = d"
    with assms show ?thesis by simp
  next
    assume "\<exists>t. snd (create_tile data d) = d\<lparr>hex_tiles := hex_tiles d @ [t]\<rparr> \<and>
        \<not> list_ex (\<lambda>x. t_game x = t_game t \<and> q x = q t \<and> r x = r t) (hex_tiles d)"
    then obtain t where t: "snd (create_tile data d) = d\<lparr>hex_tiles := hex_tiles d @ [t]\<rparr>"
      and fresh: "\<not> list_ex (\<lambda>x. t_game x = t_game t \<and> q x = q t \<and> r x = r t) (hex_tiles d)"
      by blast
    from fresh have "(t_game t, q t, r t) \<notin> set (map (\<lambda>t. (t_game t, q t, r t)) (hex_tiles d))"
      by (auto simp: list_ex_iff)
    with assms t show ?thesis
      by (simp add: tiles_unique_def)
  qed
qed

lemma create_tiles_unique:
  "tiles_unique (hex_tiles d) \<Longrightarrow> tiles_unique (hex_tiles (create_tiles xs d))"
  by (induction xs arbitrary: d) (simp_all add: create_tile_unique)

text \<open>
  Claim C6. Creating a tile at coordinates where the game already has one fails with a
  validation error and leaves the store unchanged; and every sequence of create requests
  keeps the keys \<open>(game, q, r)\<close> of the stored tiles distinct.
\<close>

theorem create_tile_preserves_uniqueness:
  "(tiles_at d (td_game data) (td_q data) (td_r data) \<noteq> [] \<longrightarrow>
      (\<exists>msg. create_tile data d = (Inl (BadRequest msg), d))) \<and>
   (tiles_unique (hex_tiles d) \<longrightarrow> tiles_unique (hex_tiles (create_tiles xs d)))"
  using create_tile_duplicate [of d data] create_tiles_unique [of d xs] by blast

text \<open>
  In the small world: a second tile at \<open>(0, 0)\<close> is refused; of three requests, for
  \<open>(0, 0)\<close>, \<open>(2, 0)\<close> and \<open>(2, 0)\<close> again, only the second adds a tile.
\<close>

theorem create_tile_preserves_uniqueness_witness:
  "tiles_at world (Some 1) (Some 0) (Some 0) \<noteq> [] \<and>
   (\<exists>msg. create_tile (tile_req 1 0 0) world = (Inl (BadRequest msg), world)) \<and>
   tiles_unique (hex_tiles world) \<and>
   length (hex_tiles (create_tiles [tile_req 1 0 0, tile_req 1 2 0, tile_req 1 2 0] world)) = 3 \<and>
   tiles_unique (hex_tiles (create_tiles [tile_req 1 0 0, tile_req 1 2 0, tile_req 1 2 0] world))"
proof -
  have a: "tiles_at world (td_game (tile_req 1 0 0)) (td_q (tile_req 1 0 0))
             (td_r (tile_req 1 0 0)) \<noteq> []" by code_simp
  have a': "tiles_at world (Some 1) (Some 0) (Some 0) \<noteq> []" by code_simp
  have b: "tiles_unique (hex_tiles world)" by code_simp
  have l: "length (hex_tiles (create_tiles [tile_req 1 0 0, tile_req 1 2 0, tile_req 1 2 0] world)) = 3"
    by code_simp
  show ?thesis
    using create_tile_preserves_uniqueness [of world "tile_req 1 0 0"
        "[tile_req 1 0 0, tile_req 1 2 0, tile_req 1 2 0]"] a a' b l
    by blast
qed

section \<open>Dead characters\<close>

text \<open>
  The object lookup yields only living characters of the table, so a request changes the
  character table by overwriting or deleting the row of a living character, if at all.
\<close>

lemma character_queryset_subset:
  "x \<in> set (character_queryset qp d) \<Longrightarrow> x \<in> set (characters d) \<and> c_status x \<noteq> Dead"
  by (auto simp: character_queryset_def Let_def split: option.splits)

lemma get_object_Inr:
  assumes "get_object qp pk d = Inr x"
  shows "x \<in> set (characters d) \<and> c_status x \<noteq> Dead \<and> c_id x = pk"
proof -
  from assms have "find (\<lambda>c. c_id c = pk) (character_queryset qp d) = Some x"
    by (simp add: get_object_def split: option.splits)
  then have "x \<in> set (character_queryset qp d)" "c_id x = pk"
    by (auto simp: find_Some_iff)
  then show ?thesis
    using character_queryset_subset by blast
qed

lemma get_object_Inl: "get_object qp pk d = Inl e \<Longrightarrow> e = Http404"
  by (simp add: get_object_def split: option.splits)

lemma get_object_dead:
  assumes "c \<in> set (characters d)" and "c_status c = Dead"
    and "distinct (map c_id (characters d))"
  shows "get_object qp (c_id c) d = Inl Http404"
proof (cases "get_object qp (c_id c) d")
  case (Inl e)
  then show ?thesis using get_object_Inl by blast
next
  case (Inr x)
  then have x: "x \<in> set (characters d)" "c_status x \<noteq> Dead" "c_id x = c_id c"
    using get_object_Inr by blast+
  from assms(3) have "inj_on c_id (set (characters d))"
    by (simp add: distinct_map)
  with x assms(1) have "x = c"
    by (auto dest: inj_onD)
  with x assms(2) show ?thesis by simp
qed

lemma characters_save_character:
  "characters (save_character x d) = map (\<lambda>y. if c_id y = c_id x then x else y) (characters d)"
  by (simp add: save_character_def)

lemma characters_save_map_item: "characters (save_map_item m d) = characters d"
  by (simp add: save_map_item_def)

lemma step_refl: "character_rows_step cs cs"
  by (simp add: character_rows_step_def)

lemma step_save:
  assumes "get_object qp pk d = Inr x" and "c_id x' = c_id x"
  shows "character_rows_step (characters d) (characters (save_character x' d))"
  using get_object_Inr [OF assms(1)] assms(2)
  unfolding character_rows_step_def characters_save_character by blast

lemma step_move: "character_rows_step (characters d) (characters (snd (move qp pk rq rr d)))"
proof (cases "get_object qp pk d")
  case (Inl e)
  then show ?thesis by (simp add: move_def step_refl)
next
  case (Inr x)
  have s: "character_rows_step (characters d)
             (characters (save_character (x\<lparr>c_position_q := nq, c_position_r := nr,
                                             c_status := Idle\<rparr>) d))" for nq nr
    by (rule step_save [OF Inr]) simp
  from Inr show ?thesis
    by (auto simp: move_def Let_def step_refl s split: option.splits)
qed

lemma step_loot: "character_rows_step (characters d) (characters (snd (loot qp pk rid t1 t2 d)))"
proof (cases "get_object qp pk d")
  case (Inl e)
  then show ?thesis by (simp add: loot_def step_refl)
next
  case (Inr x)
  have s: "character_rows_step (characters d)
             (characters (save_character (x\<lparr>inventory := inv\<rparr>) d))" for inv
    by (rule step_save [OF Inr]) simp
  from Inr show ?thesis
    by (auto simp: loot_def Let_def step_refl s characters_save_map_item
             split: option.splits json.splits)
qed

lemma c_id_apply_update: "c_id (apply_update u x) = c_id x"
  by (simp add: apply_update_def)

lemma step_update:
  "character_rows_step (characters d) (characters (snd (update_character p qp pk u d)))"
proof (cases "get_object qp pk d")
  case (Inl e)
  then show ?thesis by (simp add: update_character_def step_refl)
next
  case (Inr x)
  have s: "character_rows_step (characters d)
             (characters (save_character (apply_update u x) d))"
    by (rule step_save [OF Inr]) (rule c_id_apply_update)
  from Inr show ?thesis
    by (auto simp: update_character_def Let_def step_refl s split: option.splits sum.splits)
qed

lemma step_destroy:
  "character_rows_step (characters d) (characters (snd (destroy_character qp pk d)))"
proof (cases "get_object qp pk d")
  case (Inl e)
  then show ?thesis by (simp add: destroy_character_def step_refl)
next
  case (Inr x)
  with get_object_Inr [OF Inr] show ?thesis
    unfolding character_rows_step_def by (auto simp: destroy_character_def)
qed

lemma characters_interact: "characters (snd (interact ip pk rcid t d)) = characters d"
  by (simp add: interact_def save_interactable_def Let_def
        split: sum.splits option.splits json.splits)

lemma characters_create_tile: "characters (snd (create_tile data d)) = characters d"
  by (simp add: create_tile_def insert_tile_def Let_def split: sum.splits option.splits)

lemma characters_join: "characters (snd (join user rq d)) = characters d"
  by (simp add: join_def Let_def split: sum.splits option.splits)

lemma step_run_op: "character_rows_step (characters d) (characters (run_op x d))"
  by (cases x)
     (simp_all add: step_move step_loot step_update step_destroy step_refl
        characters_interact characters_create_tile characters_join retrieve_character_def)

text \<open>
  With distinct primary keys, such a change leaves every dead character's row in the
  table, and the keys distinct.
\<close>

lemma map_c_id_overwrite:
  "c_id x' = k \<Longrightarrow> map c_id (map (\<lambda>y. if c_id y = k then x' else y) cs) = map c_id cs"
  by (induction cs) auto

lemma overwrite_keeps_dead:
  assumes "x \<in> set cs" and "c_status x \<noteq> Dead" and "c_id x' = c_id x"
    and "c \<in> set cs" and "c_status c = Dead" and "distinct (map c_id cs)"
  shows "c \<in> set (map (\<lambda>y. if c_id y = c_id x' then x' else y) cs) \<and>
         distinct (map c_id (map (\<lambda>y. if c_id y = c_id x' then x' else y) cs))"
proof -
  from assms(6) have inj: "inj_on c_id (set cs)"
    by (simp add: distinct_map)
  have "c_id c \<noteq> c_id x"
  proof
    assume eq: "c_id c = c_id x"
    from inj eq assms(4) assms(1) have "c = x" by (rule inj_onD)
    with assms(2,5) show False by simp
  qed
  with assms(3) have "(if c_id c = c_id x' then x' else c) = c"
    by simp
  with assms(4) have "c \<in> (\<lambda>y. if c_id y = c_id x' then x' else y) ` set cs"
    by (rule_tac x = c in image_eqI) simp_all
  then have mem: "c \<in> set (map (\<lambda>y. if c_id y = c_id x' then x' else y) cs)"
    by (simp only: set_map)
  have ids: "map c_id (map (\<lambda>y. if c_id y = c_id x' then x' else y) cs) = map c_id cs"
    by (rule map_c_id_overwrite) simp
  have "distinct (map c_id (map (\<lambda>y. if c_id y = c_id x' then x' else y) cs))"
    by (simp only: ids assms(6))
  with mem show ?thesis ..
qed

lemma delete_keeps_dead:
  assumes "x \<in> set cs" and "c_status x \<noteq> Dead"
    and "c \<in> set cs" and "c_status c = Dead" and "distinct (map c_id cs)"
  shows "c \<in> set (filter (\<lambda>y. c_id y \<noteq> c_id x) cs) \<and>
         distinct (map c_id (filter (\<lambda>y. c_id y \<noteq> c_id x) cs))"
proof -
  from assms(5) have inj: "inj_on c_id (set cs)"
    by (simp add: distinct_map)
  have "c_id c \<noteq> c_id x"
  proof
    assume eq: "c_id c = c_id x"
    from inj eq assms(3) assms(1) have "c = x" by (rule inj_onD)
    with assms(2,4) show False by simp
  qed
  with assms(3) have "c \<in> set (filter (\<lambda>y. c_id y \<noteq> c_id x) cs)"
    by simp
  moreover from assms(5) have "distinct (map c_id (filter (\<lambda>y. c_id y \<noteq> c_id x) cs))"
    by (rule distinct_map_filter)
  ultimately show ?thesis by simp
qed

lemma step_keeps_dead:
  assumes "character_rows_step cs cs'" and "c \<in> set cs" and "c_status c = Dead"
    and "distinct (map c_id cs)"
  shows "c \<in> set cs' \<and> distinct (map c_id cs')"
  using assms(1) unfolding character_rows_step_def
proof (elim disjE exE conjE)
  assume "cs' = cs"
  with assms show ?thesis by simp
next
  fix x x'
  assume "x \<in> set cs" "c_status x \<noteq> Dead" "c_id x' = c_id x"
    and eq: "cs' = map (\<lambda>y. if c_id y = c_id x' then x' else y) cs"
  then show ?thesis
    unfolding eq using assms(2-4) by (intro overwrite_keeps_dead)
next
  fix x
  assume "x \<in> set cs" "c_status x \<noteq> Dead"
    and eq: "cs' = filter (\<lambda>y. c_id y \<noteq> c_id x) cs"
  then show ?thesis
    unfolding eq using assms(2-4) by (intro delete_keeps_dead)
qed

lemma run_ops_keeps_dead:
  assumes "c_status c = Dead"
  shows "c \<in> set (characters d) \<Longrightarrow> distinct (map c_id (characters d)) \<Longrightarrow>
         c \<in> set (characters (run_ops ops d)) \<and> distinct (map c_id (characters (run_ops ops d)))"
proof (induction ops arbitrary: d)
  case Nil
  then show ?case by simp
next
  case (Cons x xs)
  from step_keeps_dead [OF step_run_op Cons.prems(1) assms Cons.prems(2)]
  have "c \<in> set (characters (run_op x d))" "distinct (map c_id (characters (run_op x d)))"
    by simp_all
  then show ?case
    using Cons.IH by simp
qed

text \<open>
  Claim C8. For every stored character whose status is \<^verbatim>\<open>dead\<close> (primary keys being
  distinct), \<^verbatim>\<open>retrieve\<close>, \<^verbatim>\<open>update\<close>, \<^verbatim>\<open>partial_update\<close>, \<^verbatim>\<open>move\<close> and \<^verbatim>\<open>loot\<close>
  on its key answer 404 and leave the store unchanged; and after every sequence of
  requests the character's row is still stored as it was, so its status is still
  \<^verbatim>\<open>dead\<close>.
\<close>

theorem dead_character_not_found:
  assumes "c \<in> set (characters d)" and "c_status c = Dead"
    and "distinct (map c_id (characters d))"
  shows "retrieve_character qp (c_id c) d = (Inl Http404, d) \<and>
         update_character False qp (c_id c) u d = (Inl Http404, d) \<and>
         update_character True qp (c_id c) u d = (Inl Http404, d) \<and>
         move qp (c_id c) rq rr d = (Inl Http404, d) \<and>
         loot qp (c_id c) rid t1 t2 d = (Inl Http404, d) \<and>
         c \<in> set (characters (run_ops ops d))"
proof -
  have g: "get_object qp (c_id c) d = Inl Http404"
    by (rule get_object_dead [OF assms])
  have "c \<in> set (characters (run_ops ops d))"
    using run_ops_keeps_dead [OF assms(2) assms(1) assms(3)] by simp
  with g show ?thesis
    by (simp add: retrieve_character_def update_character_def move_def loot_def)
qed

text \<open>The dead character 2 of the small world, and six requests that name it or its neighbour.\<close>

theorem dead_character_not_found_witness:
  "fallen \<in> set (characters world) \<and> c_status fallen = Dead \<and>
   distinct (map c_id (characters world)) \<and>
   retrieve_character no_params 2 world = (Inl Http404, world) \<and>
   update_character False no_params 2 revive world = (Inl Http404, world) \<and>
   update_character True no_params 2 revive world = (Inl Http404, world) \<and>
   move no_params 2 (Some 0) (Some 0) world = (Inl Http404, world) \<and>
   loot no_params 2 (JInt 5) ''t1'' ''t2'' world = (Inl Http404, world) \<and>
   fallen \<in> set (characters (run_ops
      [PartialUpdate no_params 2 revive, Move no_params 2 (Some 0) (Some 0),
       Loot no_params 1 (JInt 5) ''t1'' ''t2'', Interact no_iparams 4 (JInt 2) ''t3'',
       Destroy no_params 1, Destroy no_params 2] world))"
proof -
  have h1: "fallen \<in> set (characters world)" by code_simp
  have h2: "c_status fallen = Dead" by code_simp
  have h3: "distinct (map c_id (characters world))" by code_simp
  have k: "c_id fallen = 2" by code_simp
  show ?thesis
    using h1 h2 h3
      dead_character_not_found [OF h1 h2 h3, of no_params revive "Some 0" "Some 0" "JInt 5"
        "''t1''" "''t2''"
        "[PartialUpdate no_params 2 revive, Move no_params 2 (Some 0) (Some 0),
          Loot no_params 1 (JInt 5) ''t1'' ''t2'', Interact no_iparams 4 (JInt 2) ''t3'',
          Destroy no_params 1, Destroy no_params 2]"]
    unfolding k by blast
qed

section \<open>Looting a map item\<close>























text \<open>
  A partial update may write any JSON value but null to the inventory. After it has
  written an object, the loot of the potion raises and the potion stays available.
\<close>

lemma loot_after_inventory_overwritten:
  "fst (update_character True no_params 1 scribble world) =
     Inr (scout\<lparr>inventory := JDict [(''a'', JInt 1)]\<rparr>) \<and>
   loot no_params 1 (JInt 5) ''t1'' ''t2'' (run_ops [PartialUpdate no_params 1 scribble] world) =
     (Inl ServerError, run_ops [PartialUpdate no_params 1 scribble] world) \<and>
   map_items (run_ops [PartialUpdate no_params 1 scribble] world) = [potion]"
  by code_simp


section \<open>Using an interactable: the use limit\<close>

text \<open>
  The object lookup is a search for the first row that passes the filters and has the
  key; after a successful \<^verbatim>\<open>interact\<close> it yields the saved row.
\<close>

lemma interactable_queryset_filter:
  "interactable_queryset ip d = filter (iparams_match ip) (interactables d)"
  by (cases "iq_game ip"; cases "iq_active ip"; cases "iq_q ip"; cases "iq_r ip")
     (simp_all add: interactable_queryset_def iparams_match_def [abs_def] Let_def conj_commute)

lemma find_filter_conj: "find Q (filter P xs) = find (\<lambda>x. P x \<and> Q x) xs"
  by (induction xs) simp_all

lemma get_interactable_find:
  "get_interactable ip pk d =
     (case find (\<lambda>x. iparams_match ip x \<and> i_id x = pk) (interactables d) of
        None \<Rightarrow> Inl Http404 | Some i \<Rightarrow> Inr i)"
  by (simp add: get_interactable_def interactable_queryset_filter find_filter_conj)

lemma find_after_overwrite:
  assumes "find (\<lambda>x. P x \<and> i_id x = pk) xs = Some i" and "P i'" and "i_id i' = pk"
  shows "find (\<lambda>x. P x \<and> i_id x = pk) (map (\<lambda>x. if i_id x = i_id i' then i' else x) xs) = Some i'"
  using assms by (induction xs) (auto split: if_splits)

lemma get_interactable_after_save:
  assumes "get_interactable ip pk d = Inr i"
    and "i_id i' = i_id i" and "iparams_match ip i' = iparams_match ip i"
  shows "get_interactable ip pk (save_interactable i' d) = Inr i'"
proof -
  from assms(1) have f: "find (\<lambda>x. iparams_match ip x \<and> i_id x = pk) (interactables d) = Some i"
    by (simp add: get_interactable_find split: option.splits)
  then have "iparams_match ip i" "i_id i = pk"
    by (auto simp: find_Some_iff)
  with assms(2,3) have "iparams_match ip i'" "i_id i' = pk"
    by simp_all
  from find_after_overwrite [OF f this]
  show ?thesis
    by (simp add: get_interactable_find save_interactable_def)
qed

text \<open>One request: below the limit it succeeds, at the limit it fails.\<close>

lemma requester_Some:
  assumes "requester d i rcid = Some c"
  shows "truthy rcid \<and> (\<exists>cid. orm_int rcid = Some cid \<and>
           find (\<lambda>c. c_id c = cid \<and> c_game c = i_game i) (characters d) = Some c) \<and>
         c_position_q c = i_position_q i \<and> c_position_r c = i_position_r i"
  using assms by (auto simp: requester_def split: if_splits option.splits)

lemma interact_success:
  assumes "get_interactable ip pk d = Inr i" and "requester d i rcid = Some c"
    and "i_is_active i" and "\<not> (max_uses i > 0 \<and> current_uses i \<ge> max_uses i)"
    and "find (\<lambda>g. g_id g = i_game i) (games d) = Some g"
    and "interactions i = JList history"
  shows "interact ip pk rcid t d = (Inr (used i c g t), save_interactable (used i c g t) d)"
proof -
  from requester_Some [OF assms(2)] obtain cid where
    r: "truthy rcid" "orm_int rcid = Some cid"
       "find (\<lambda>c. c_id c = cid \<and> c_game c = i_game i) (characters d) = Some c"
       "c_position_q c = i_position_q i" "c_position_r c = i_position_r i"
    by blast
  from assms(1,3,4,5,6) r show ?thesis
    by (simp add: interact_def used_def Let_def)
qed

text \<open>When the stored history is not a list, the append raises and nothing is saved.\<close>

lemma interact_history_not_a_list:
  assumes "get_interactable ip pk d = Inr i" and "requester d i rcid = Some c"
    and "i_is_active i" and "\<not> (max_uses i > 0 \<and> current_uses i \<ge> max_uses i)"
    and "find (\<lambda>g. g_id g = i_game i) (games d) = Some g"
    and "\<forall>history. interactions i \<noteq> JList history"
  shows "interact ip pk rcid t d = (Inl ServerError, d)"
proof -
  from requester_Some [OF assms(2)] obtain cid where
    r: "truthy rcid" "orm_int rcid = Some cid"
       "find (\<lambda>c. c_id c = cid \<and> c_game c = i_game i) (characters d) = Some c"
       "c_position_q c = i_position_q i" "c_position_r c = i_position_r i"
    by blast
  from assms(6) have "(case interactions i of JList h \<Rightarrow> f h | _ \<Rightarrow> k) = k" for f k
    by (cases "interactions i") simp_all
  with assms(1,3,4,5) r show ?thesis
    by (simp add: interact_def)
qed

lemma interact_at_limit:
  assumes "get_interactable ip pk d = Inr i" and "requester d i rcid = Some c"
    and "i_is_active i" and "max_uses i > 0" and "current_uses i \<ge> max_uses i"
  shows "interact ip pk rcid t d =
           (Inl (BadRequest ''Interactable has been used maximum times''), d)"
proof -
  from requester_Some [OF assms(2)] obtain cid where
    r: "truthy rcid" "orm_int rcid = Some cid"
       "find (\<lambda>c. c_id c = cid \<and> c_game c = i_game i) (characters d) = Some c"
       "c_position_q c = i_position_q i" "c_position_r c = i_position_r i"
    by blast
  from assms(1,3,4,5) r show ?thesis
    by (simp add: interact_def)
qed

lemma requester_after_save:
  assumes "i_game i' = i_game i" and "i_position_q i' = i_position_q i"
    and "i_position_r i' = i_position_r i"
  shows "requester (save_interactable j d) i' rcid = requester d i rcid"
  using assms by (simp add: requester_def save_interactable_def cong: option.case_cong)

lemma games_after_save: "games (save_interactable j d) = games d"
  by (simp add: save_interactable_def)

lemma used_fields:
  "i_id (used i c g t) = i_id i" "i_game (used i c g t) = i_game i"
  "i_position_q (used i c g t) = i_position_q i" "i_position_r (used i c g t) = i_position_r i"
  "i_is_active (used i c g t) = i_is_active i" "max_uses (used i c g t) = max_uses i"
  "current_uses (used i c g t) = current_uses i + 1"
  "last_used_tick (used i c g t) = Some (current_tick g)"
  "iparams_match ip (used i c g t) = iparams_match ip i"
  by (simp_all add: used_def iparams_match_def cong: option.case_cong prod.case_cong)

lemma used_history:
  "interactions i = JList history \<Longrightarrow>
   interactions (used i c g t) = JList (history @ [interaction_record c (current_tick g) t])"
  by (simp add: used_def)

lemma interact_all_at_limit:
  assumes "get_interactable ip pk d = Inr i" and "i_is_active i"
    and "max_uses i > 0" and "current_uses i \<ge> max_uses i"
  shows "\<forall>x \<in> set xs. requester d i (fst x) \<noteq> None \<Longrightarrow>
         interact_all ip pk xs d =
           (replicate (length xs) (Inl (BadRequest ''Interactable has been used maximum times'')),
            d)"
proof (induction xs)
  case Nil
  then show ?case by simp
next
  case (Cons x xs)
  then obtain c where "requester d i (fst x) = Some c"
    by auto
  from interact_at_limit [OF assms(1) this assms(2-4), of "snd x"] Cons
  show ?case by simp
qed

text \<open>
  Claim C3, as the code has it. Let an interactable with \<^verbatim>\<open>max_uses\<close> 2 be active and
  unused, whatever its cooldown, let its stored history be a list, and let every request
  of a sequence name a character of its game standing on it. Then the first two requests
  succeed, each adding one use, setting \<^verbatim>\<open>last_used_tick\<close> to the game's tick and
  appending its record to the history, and every later request fails with the
  "maximum times" error and changes nothing.
\<close>

theorem interact_max_uses_two:
  assumes "get_interactable ip pk d = Inr i"
    and "max_uses i = 2" and "current_uses i = 0" and "i_is_active i"
    and "interactions i = JList history"
    and "find (\<lambda>g. g_id g = i_game i) (games d) = Some g"
    and "requester d i (fst a) = Some ca" and "requester d i (fst b) = Some cb"
    and "\<forall>x \<in> set rest. requester d i (fst x) \<noteq> None"
  shows "interact_all ip pk (a # b # rest) d =
           (Inr (used i ca g (snd a)) # Inr (used (used i ca g (snd a)) cb g (snd b)) #
              replicate (length rest)
                (Inl (BadRequest ''Interactable has been used maximum times'')),
            save_interactable (used (used i ca g (snd a)) cb g (snd b))
              (save_interactable (used i ca g (snd a)) d)) \<and>
         current_uses (used i ca g (snd a)) = 1 \<and>
         current_uses (used (used i ca g (snd a)) cb g (snd b)) = 2 \<and>
         last_used_tick (used i ca g (snd a)) = Some (current_tick g) \<and>
         last_used_tick (used (used i ca g (snd a)) cb g (snd b)) = Some (current_tick g) \<and>
         interactions (used (used i ca g (snd a)) cb g (snd b)) =
           JList (history @ [interaction_record ca (current_tick g) (snd a),
                             interaction_record cb (current_tick g) (snd b)])"
proof -
  define i1 where "i1 = used i ca g (snd a)"
  define d1 where "d1 = save_interactable i1 d"
  define i2 where "i2 = used i1 cb g (snd b)"
  define d2 where "d2 = save_interactable i2 d1"
  have f1: "i_id i1 = i_id i" "i_game i1 = i_game i" "i_position_q i1 = i_position_q i"
    "i_position_r i1 = i_position_r i" "i_is_active i1" "max_uses i1 = 2"
    "current_uses i1 = 1" "iparams_match ip i1 = iparams_match ip i"
    using assms(2-4) by (simp_all add: i1_def used_fields)
  have h1: "interactions i1 = JList (history @ [interaction_record ca (current_tick g) (snd a)])"
    unfolding i1_def by (rule used_history [OF assms(5)])
  have f2: "i_id i2 = i_id i1" "i_game i2 = i_game i" "i_position_q i2 = i_position_q i"
    "i_position_r i2 = i_position_r i" "i_is_active i2" "max_uses i2 = 2"
    "current_uses i2 = 2" "iparams_match ip i2 = iparams_match ip i1"
    using f1 by (simp_all add: i2_def used_fields)
  have s1: "interact ip pk (fst a) (snd a) d = (Inr i1, d1)"
    unfolding i1_def d1_def
    by (rule interact_success [OF assms(1) assms(7) assms(4) _ assms(6) assms(5)])
       (simp add: assms(2,3))
  have g1: "get_interactable ip pk d1 = Inr i1"
    unfolding d1_def by (rule get_interactable_after_save [OF assms(1) f1(1) f1(8)])
  have r1: "requester d1 i1 x = requester d i x" for x
    unfolding d1_def by (rule requester_after_save [OF f1(2-4)])
  have gm1: "find (\<lambda>g. g_id g = i_game i1) (games d1) = Some g"
    using assms(6) by (simp add: d1_def games_after_save f1(2))
  have s2: "interact ip pk (fst b) (snd b) d1 = (Inr i2, d2)"
    unfolding i2_def d2_def
    by (rule interact_success [OF g1 _ f1(5) _ gm1 h1])
       (simp_all add: r1 assms(8) f1(6,7))
  have g2: "get_interactable ip pk d2 = Inr i2"
    unfolding d2_def by (rule get_interactable_after_save [OF g1 f2(1) f2(8)])
  have r2: "requester d2 i2 x = requester d i x" for x
  proof -
    have "requester d2 i2 x = requester d1 i1 x"
      unfolding d2_def by (rule requester_after_save) (simp_all add: f1 f2)
    then show ?thesis by (simp add: r1)
  qed
  have all: "\<forall>x \<in> set rest. requester d2 i2 (fst x) \<noteq> None"
    using assms(9) by (simp add: r2)
  have s3: "interact_all ip pk rest d2 =
      (replicate (length rest) (Inl (BadRequest ''Interactable has been used maximum times'')),
       d2)"
    by (rule interact_all_at_limit [OF g2 f2(5) _ _ all]) (simp_all add: f2(6,7))
  have run: "interact_all ip pk (a # b # rest) d =
           (Inr i1 # Inr i2 #
              replicate (length rest)
                (Inl (BadRequest ''Interactable has been used maximum times'')), d2)"
    by (simp add: s1 s2 s3)
  have h: "interactions i2 = JList (history @ [interaction_record ca (current_tick g) (snd a),
                             interaction_record cb (current_tick g) (snd b)])"
    "last_used_tick i1 = Some (current_tick g)" "last_used_tick i2 = Some (current_tick g)"
    using used_history [OF h1, of cb g "snd b"] by (simp_all add: i2_def i1_def used_fields)
  from run h f1(7) f2(7) show ?thesis
    unfolding d2_def d1_def i2_def i1_def by simp
qed

text \<open>
  Four requests by character 1 on the shrine of the small world, whose cooldown of 5 ticks
  has not passed at the second request.
\<close>

theorem interact_max_uses_two_witness:
  "get_interactable no_iparams 4 world = Inr shrine \<and> max_uses shrine = 2 \<and>
   current_uses shrine = 0 \<and> i_is_active shrine \<and> cooldown_ticks shrine = 5 \<and>
   interactions shrine = JList [] \<and>
   requester world shrine (JInt 1) = Some scout \<and>
   fst (interact_all no_iparams 4
          [(JInt 1, ''t1''), (JInt 1, ''t2''), (JInt 1, ''t3''), (JInt 1, ''t4'')] world) =
     [Inr (used shrine scout game1 ''t1''),
      Inr (used (used shrine scout game1 ''t1'') scout game1 ''t2''),
      Inl (BadRequest ''Interactable has been used maximum times''),
      Inl (BadRequest ''Interactable has been used maximum times'')] \<and>
   current_uses (used (used shrine scout game1 ''t1'') scout game1 ''t2'') = 2"
proof -
  have h: "get_interactable no_iparams 4 world = Inr shrine" "max_uses shrine = 2"
    "current_uses shrine = 0" "i_is_active shrine" "interactions shrine = JList []"
    "find (\<lambda>g. g_id g = i_game shrine) (games world) = Some game1"
    "requester world shrine (fst (JInt 1, ''t1'')) = Some scout"
    "requester world shrine (fst (JInt 1, ''t2'')) = Some scout"
    "\<forall>x \<in> set [(JInt 1, ''t3''), (JInt 1, ''t4'')]. requester world shrine (fst x) \<noteq> None"
    by code_simp+
  have c: "cooldown_ticks shrine = 5" by code_simp
  from interact_max_uses_two [OF h] h c show ?thesis
    by simp
qed

text \<open>
  Claim C3 as stated speaks of every interactable with \<^verbatim>\<open>max_uses\<close> 2. The history column
  holds any JSON value, and the interactable serializer lets a client write it. The
  shrine below is active and unused with \<^verbatim>\<open>max_uses\<close> 2, character 1 stands on it, and its
  history is the object \<^verbatim>\<open>{}\<close>: the first request already fails, with an uncaught
  exception, and nothing is saved.
\<close>

theorem interact_history_object_counterexample:
  "get_interactable no_iparams 4 scribbled_world = Inr scribbled \<and>
   max_uses scribbled = 2 \<and> current_uses scribbled = 0 \<and> i_is_active scribbled \<and>
   interactions scribbled = JDict [] \<and>
   requester scribbled_world scribbled (JInt 1) = Some scout \<and>
   interact no_iparams 4 (JInt 1) ''t1'' scribbled_world = (Inl ServerError, scribbled_world)"
  by code_simp

section \<open>Joining a game\<close>










lemma validate_join_Inl: "validate_join d game = Inl e \<Longrightarrow> \<exists>msg. e = BadRequest msg"
  by (auto simp: validate_join_def split: if_splits)













text \<open>
  \<^verbatim>\<open>validate_color\<close> does not look at the six characters after the \<^verbatim>\<open>#\<close>: a join with the
  colour \<^verbatim>\<open>#GGGGGG\<close> succeeds.
\<close>

lemma join_accepts_non_hex_color:
  "\<not> spec_hex_color ''#GGGGGG'' \<and>
   fst (join 8 join_not_hex world) =
     Inr \<lparr>p_id = 2, p_game = 1, p_user = 8, player_name = ''Bea'', color = ''#GGGGGG'',
          avatar = [], p_is_active = True\<rparr>"
  by code_simp

section \<open>Item catalog validation\<close>

text \<open>
  Claim C7 says that a request is rejected unless \<^verbatim>\<open>stat_modifiers\<close>, when present, is a
  flat mapping whose values are all numeric. The code tests the values with
  \<^verbatim>\<open>isinstance(val, (int, float))\<close>, which a boolean passes: a create request, an update and
  a partial update with \<^verbatim>\<open>{"strength": true}\<close> are all accepted.
\<close>

theorem stat_modifiers_accepts_boolean:
  "\<not> spec_flat_numeric_mapping (JDict [(''strength'', JBool True)]) \<and>
   validate_stat_modifiers (JDict [(''strength'', JBool True)]) =
     Inr (JDict [(''strength'', JBool True)]) \<and>
   validate_item_create [] sword = Inr sword \<and>
   validate_item_update False [] sword = Inr sword \<and>
   validate_item_update True [] sword = Inr sword"
  by code_simp

text \<open>
  The other bounds of the claim hold for every accepted create request and every accepted
  full update: the name is not empty, the rarity is one of the three, and the numeric
  fields are in their ranges.
\<close>

lemma then_check_Inr: "(then_check m f = Inr y) = (\<exists>x. m = Inr x \<and> f x = Inr y)"
  by (cases m) (simp_all add: then_check_def)

lemma required_Inr:
  "(required False v f = Inr y) = (\<exists>x z. v = Some x \<and> f x = Inr z \<and> y = Some z)"
  by (cases v) (auto simp: required_def then_check_Inr)

lemma optional_Inr:
  "(optional v f = Inr y) =
     (v = None \<and> y = None \<or> (\<exists>x z. v = Some x \<and> f x = Inr z \<and> y = Some z))"
  by (cases v) (auto simp: optional_def then_check_Inr)

lemma field_name_Inr: "field_name taken v = Inr s \<Longrightarrow> s \<noteq> [] \<and> s = py_strip v"
  by (auto simp: field_name_def char_field_def Let_def split: sum.splits if_splits)

lemma validate_name_Inr: "validate_name v = Inr s \<Longrightarrow> s \<noteq> []"
  by (auto simp: validate_name_def split: if_splits)

lemma field_rarity_Inr: "field_rarity v = Inr s \<Longrightarrow> s = v \<and> v \<in> set RARITY_CHOICES"
  by (auto simp: field_rarity_def split: if_splits)

lemma validate_rarity_Inr: "validate_rarity v = Inr s \<Longrightarrow> s = v \<and> v \<in> set RARITY_CHOICES"
  by (auto simp: validate_rarity_def RARITY_CHOICES_def split: if_splits)

lemma validate_stack_size_Inr: "validate_stack_size v = Inr s \<Longrightarrow> s = v \<and> 1 \<le> v \<and> v \<le> 9999"
  by (auto simp: validate_stack_size_def split: if_splits)

lemma validate_cooldown_Inr: "validate_cooldown v = Inr s \<Longrightarrow> s = v \<and> 0 \<le> v"
  by (auto simp: validate_cooldown_def split: if_splits)

lemma validate_upgrade_level_Inr:
  "validate_upgrade_level v = Inr s \<Longrightarrow> s = v \<and> 0 \<le> v \<and> v \<le> 100"
  by (auto simp: validate_upgrade_level_def split: if_splits)

lemma validate_drop_rate_Inr: "validate_drop_rate v = Inr s \<Longrightarrow> s = v \<and> 0 \<le> v \<and> v \<le> 1"
  by (auto simp: validate_drop_rate_def split: if_splits)

lemma validate_durability_Inr:
  "validate_durability v = Inr s \<Longrightarrow> s = v \<and> (\<forall>n. v = Some n \<longrightarrow> 0 \<le> n)"
  by (auto simp: validate_durability_def split: option.splits if_splits)

lemma validate_stat_modifiers_Inr:
  assumes "validate_stat_modifiers v = Inr s"
  shows "s = v \<and> (v = JNull \<or> (\<exists>kvs. v = JDict kvs \<and>
                     list_all (\<lambda>kv. isinstance_int_float (snd kv)) kvs))"
proof (cases v)
  case (JDict kvs)
  with assms have "find (\<lambda>kv. \<not> isinstance_int_float (snd kv)) kvs = None" and "s = v"
    by (auto simp: validate_stat_modifiers_def split: option.splits)
  then show ?thesis
    using JDict by (auto simp: find_None_iff list_all_iff)
qed (use assms in \<open>simp_all add: validate_stat_modifiers_def\<close>)

lemma create_accepts_only:
  assumes "validate_item_create taken rq = Inr v"
  shows "(\<exists>n. ir_name v = Some n \<and> n \<noteq> []) \<and>
         (\<exists>x. ir_rarity v = Some x \<and> x \<in> set RARITY_CHOICES) \<and> accepted_fields v"
proof -
  from assms obtain name type rarity sm du ss cd ul dr where
    n: "required False (ir_name rq) (\<lambda>v. then_check (field_name taken v) validate_name) = Inr name"
    and r: "required False (ir_rarity rq) (\<lambda>v. then_check (field_rarity v) validate_rarity) = Inr rarity"
    and o: "optional (ir_stat_modifiers rq) validate_stat_modifiers = Inr sm"
      "optional (ir_durability rq) validate_durability = Inr du"
      "optional (ir_stack_size rq) validate_stack_size = Inr ss"
      "optional (ir_cooldown rq) validate_cooldown = Inr cd"
      "optional (ir_upgrade_level rq) validate_upgrade_level = Inr ul"
      "optional (ir_drop_rate rq) validate_drop_rate = Inr dr"
    and v: "v = \<lparr>ir_name = name, ir_type = type, ir_rarity = rarity,
          ir_stat_modifiers = sm, ir_durability = du,
          ir_stack_size = ss, ir_cooldown = cd,
          ir_upgrade_level = ul, ir_drop_rate = dr\<rparr>"
    unfolding validate_item_create_def then_check_Inr by blast
  from n have 1: "\<exists>n. name = Some n \<and> n \<noteq> []"
    by (auto simp: required_Inr then_check_Inr dest: validate_name_Inr)
  from r have 2: "\<exists>x. rarity = Some x \<and> x \<in> set RARITY_CHOICES"
    by (auto simp: required_Inr then_check_Inr dest: validate_rarity_Inr)
  from o(1) have 3: "\<forall>j. sm = Some j \<longrightarrow> j = JNull \<or> (\<exists>kvs. j = JDict kvs \<and>
                           list_all (\<lambda>kv. isinstance_int_float (snd kv)) kvs)"
    by (auto simp: optional_Inr dest: validate_stat_modifiers_Inr)
  from o(2) have 4: "\<forall>n. du = Some (Some n) \<longrightarrow> 0 \<le> n"
    by (auto simp: optional_Inr dest: validate_durability_Inr)
  from o(3) have 5: "\<forall>n. ss = Some n \<longrightarrow> 1 \<le> n \<and> n \<le> 9999"
    by (auto simp: optional_Inr dest: validate_stack_size_Inr)
  from o(4) have 6: "\<forall>n. cd = Some n \<longrightarrow> 0 \<le> n"
    by (auto simp: optional_Inr dest: validate_cooldown_Inr)
  from o(5) have 7: "\<forall>n. ul = Some n \<longrightarrow> 0 \<le> n \<and> n \<le> 100"
    by (auto simp: optional_Inr dest: validate_upgrade_level_Inr)
  from o(6) have 8: "\<forall>x. dr = Some x \<longrightarrow> 0 \<le> x \<and> x \<le> 1"
    by (auto simp: optional_Inr dest: validate_drop_rate_Inr)
  from 1 2 3 4 5 6 7 8 show ?thesis
    unfolding v accepted_fields_def by simp
qed

lemma update_accepts_only:
  assumes "validate_item_update False taken rq = Inr v"
  shows "(\<exists>n. ir_name v = Some n \<and> n \<noteq> []) \<and>
         (\<exists>x. ir_rarity v = Some x \<and> x \<in> set RARITY_CHOICES) \<and> accepted_fields v"
proof -
  from assms obtain name type rarity sm du ss cd ul dr where
    n: "required False (ir_name rq) (field_name taken) = Inr name"
    and r: "required False (ir_rarity rq) field_rarity = Inr rarity"
    and o: "optional (ir_stat_modifiers rq) validate_stat_modifiers = Inr sm"
      "optional (ir_durability rq) validate_durability = Inr du"
      "optional (ir_stack_size rq) validate_stack_size = Inr ss"
      "optional (ir_cooldown rq) validate_cooldown = Inr cd"
      "optional (ir_upgrade_level rq) validate_upgrade_level = Inr ul"
      "optional (ir_drop_rate rq) validate_drop_rate = Inr dr"
    and v: "v = \<lparr>ir_name = name, ir_type = type, ir_rarity = rarity,
          ir_stat_modifiers = sm, ir_durability = du,
          ir_stack_size = ss, ir_cooldown = cd,
          ir_upgrade_level = ul, ir_drop_rate = dr\<rparr>"
    unfolding validate_item_update_def then_check_Inr by blast
  from n have 1: "\<exists>n. name = Some n \<and> n \<noteq> []"
    by (auto simp: required_Inr dest: field_name_Inr)
  from r have 2: "\<exists>x. rarity = Some x \<and> x \<in> set RARITY_CHOICES"
    by (auto simp: required_Inr dest: field_rarity_Inr)
  from o(1) have 3: "\<forall>j. sm = Some j \<longrightarrow> j = JNull \<or> (\<exists>kvs. j = JDict kvs \<and>
                           list_all (\<lambda>kv. isinstance_int_float (snd kv)) kvs)"
    by (auto simp: optional_Inr dest: validate_stat_modifiers_Inr)
  from o(2) have 4: "\<forall>n. du = Some (Some n) \<longrightarrow> 0 \<le> n"
    by (auto simp: optional_Inr dest: validate_durability_Inr)
  from o(3) have 5: "\<forall>n. ss = Some n \<longrightarrow> 1 \<le> n \<and> n \<le> 9999"
    by (auto simp: optional_Inr dest: validate_stack_size_Inr)
  from o(4) have 6: "\<forall>n. cd = Some n \<longrightarrow> 0 \<le> n"
    by (auto simp: optional_Inr dest: validate_cooldown_Inr)
  from o(5) have 7: "\<forall>n. ul = Some n \<longrightarrow> 0 \<le> n \<and> n \<le> 100"
    by (auto simp: optional_Inr dest: validate_upgrade_level_Inr)
  from o(6) have 8: "\<forall>x. dr = Some x \<longrightarrow> 0 \<le> x \<and> x \<le> 1"
    by (auto simp: optional_Inr dest: validate_drop_rate_Inr)
  from 1 2 3 4 5 6 7 8 show ?thesis
    unfolding v accepted_fields_def by simp
qed

end
